theory Spec2Isabelle
  imports Complex_Main
begin

section \<open>Data model (types.ts)\<close>

text \<open>
  JavaScript numbers are modelled as follows: counters that the program only ever
  moves in whole steps (money, lives, wave, counts, intervals, timers) are \<open>int\<close>;
  indices are \<open>nat\<close>; coordinates, speeds, hit points and multipliers are \<open>real\<close>
  (the IEEE rounding of the double arithmetic is not modelled).
\<close>

record Vector2D =
  vec_x :: real
  vec_y :: real

datatype EnemyType = SCOUT | grunt | TANK | BOSS

datatype TowerType = BLASTER | CANNON | SNIPER | SLOW

record EnemyConfig =
  c_speed :: real
  c_hp :: real
  bounty :: int
  c_color :: string
  radius :: real

record TowerConfig =
  tc_name :: string
  tc_range :: real
  tc_damage :: real
  cooldown :: int
  cost :: int
  tc_color :: string
  description :: string

record EnemyEntity =
  e_id :: string
  e_type :: EnemyType
  e_x :: real
  e_y :: real
  hp :: real
  maxHp :: real
  e_speed :: real
  pathIndex :: nat
  frozen :: int
  distanceTraveled :: real

record TowerEntity =
  t_id :: string
  t_type :: TowerType
  t_x :: real
  t_y :: real
  cooldownTimer :: int
  level :: int
  t_range :: real
  t_damage :: real
  fireRate :: int

record ProjectileEntity =
  p_id :: string
  p_x :: real
  p_y :: real
  targetId :: string
  p_damage :: real
  p_speed :: real
  p_color :: string
  isAoE :: bool
  slowEffect :: int

record Particle =
  pt_id :: string
  pt_x :: real
  pt_y :: real
  vx :: real
  vy :: real
  life :: real
  maxLife :: real
  pt_color :: string
  pt_size :: real

record SpawnGroup =
  g_type :: EnemyType
  g_count :: int
  interval :: int
  hpMultiplier :: real

record WaveComposition =
  wc_enemies :: "SpawnGroup list"
  briefing :: string

record GameState =
  money :: int
  lives :: int
  wave :: int
  isPlaying :: bool
  isGameOver :: bool
  gameSpeed :: int

section \<open>Static configuration (constants.ts)\<close>

definition GRID_SIZE :: int where
  "GRID_SIZE = 40"

definition PATH_WAYPOINTS :: "Vector2D list" where
  "PATH_WAYPOINTS =
     map (\<lambda>(px, py). \<lparr>vec_x = px * real_of_int GRID_SIZE + real_of_int GRID_SIZE / 2,
                       vec_y = py * real_of_int GRID_SIZE + real_of_int GRID_SIZE / 2\<rparr>)
       [(0, 2), (5, 2), (5, 8), (12, 8), (12, 4), (18, 4), (18, 10), (8, 10), (8, 13), (20, 13)]"

fun ENEMY_STATS :: "EnemyType \<Rightarrow> EnemyConfig" where
  "ENEMY_STATS SCOUT = \<lparr>c_speed = 2.5, c_hp = 30, bounty = 5, c_color = ''#facc15'', radius = 8\<rparr>"
| "ENEMY_STATS grunt = \<lparr>c_speed = 1.5, c_hp = 80, bounty = 10, c_color = ''#f87171'', radius = 12\<rparr>"
| "ENEMY_STATS TANK = \<lparr>c_speed = 0.8, c_hp = 300, bounty = 30, c_color = ''#a855f7'', radius = 16\<rparr>"
| "ENEMY_STATS BOSS = \<lparr>c_speed = 0.4, c_hp = 2000, bounty = 200, c_color = ''#ef4444'', radius = 24\<rparr>"

fun TOWER_STATS :: "TowerType \<Rightarrow> TowerConfig" where
  "TOWER_STATS BLASTER = \<lparr>tc_name = ''Pulse Turret'', tc_range = 120, tc_damage = 15,
      cooldown = 20, cost = 50, tc_color = ''#38bdf8'',
      description = ''Rapid fire, single target energy weapon.''\<rparr>"
| "TOWER_STATS SNIPER = \<lparr>tc_name = ''Railgun'', tc_range = 250, tc_damage = 100,
      cooldown = 90, cost = 150, tc_color = ''#84cc16'',
      description = ''Long range, high damage, slow reload.''\<rparr>"
| "TOWER_STATS CANNON = \<lparr>tc_name = ''Plasma Mortar'', tc_range = 150, tc_damage = 40,
      cooldown = 60, cost = 200, tc_color = ''#f97316'',
      description = ''Deals splash damage to grouped enemies.''\<rparr>"
| "TOWER_STATS SLOW = \<lparr>tc_name = ''Stasis Field'', tc_range = 100, tc_damage = 2,
      cooldown = 10, cost = 120, tc_color = ''#6366f1'',
      description = ''Slows down nearby enemies.''\<rparr>"

definition INITIAL_MONEY :: int where
  "INITIAL_MONEY = 120"

definition INITIAL_LIVES :: int where
  "INITIAL_LIVES = 20"

section \<open>Wave generator (services/geminiService.ts)\<close>

text \<open>Decimal rendering of a whole number, as a template literal prints it.\<close>

definition digit :: "nat \<Rightarrow> char" where
  "digit d = ''0123456789'' ! d"

function decimal :: "nat \<Rightarrow> string \<Rightarrow> string" where
  "decimal n acc =
     (if n < 10 then digit n # acc else decimal (n div 10) (digit (n mod 10) # acc))"
  by pat_completeness auto
termination
  by (relation "measure (\<lambda>(n, acc). n)") auto

definition numberToString :: "int \<Rightarrow> string" where
  "numberToString i = (if i < 0 then CHR ''-'' # decimal (nat (- i)) [] else decimal (nat i) [])"

text \<open>
  The environment of \<open>getApiKey\<close>: \<open>None\<close> when \<open>process\<close> or \<open>process.env\<close> is
  missing, \<open>Some None\<close> when \<open>API_KEY\<close> is unset, \<open>Some (Some k)\<close> when it is the
  string \<open>k\<close>. \<open>trim\<close> strips the ASCII white space characters.
\<close>

type_synonym environment = "string option option"

definition is_space :: "char \<Rightarrow> bool" where
  "is_space c = (c \<in> set [CHR '' '', CHR 0x09, CHR 0x0A, CHR 0x0B, CHR 0x0C, CHR 0x0D])"

definition trim :: "string \<Rightarrow> string" where
  "trim s = rev (dropWhile is_space (rev (dropWhile is_space s)))"

definition getApiKey :: "environment \<Rightarrow> string option" where
  "getApiKey env =
     (case env of
        Some (Some key) \<Rightarrow>
          if key \<noteq> [] \<and> length (trim key) > 0 then Some key else None
      | _ \<Rightarrow> None)"

text \<open>The client is the key it was built from; \<open>None\<close> is the source's \<open>null\<close>.\<close>

definition getClient :: "environment \<Rightarrow> string option" where
  "getClient env = (case getApiKey env of None \<Rightarrow> None | Some apiKey \<Rightarrow> Some apiKey)"

definition isAIOnline :: "environment \<Rightarrow> bool" where
  "isAIOnline env = (getApiKey env \<noteq> None)"

definition generateFallbackWave :: "int \<Rightarrow> WaveComposition" where
  "generateFallbackWave waveNumber =
     (let difficultyMult = 1 + (real_of_int waveNumber * 0.2);
          enemies0 = [\<lparr>g_type = grunt,
                       g_count = \<lfloor>5 * difficultyMult\<rfloor>,
                       interval = max 20 (60 - waveNumber * 2),
                       hpMultiplier = difficultyMult\<rparr>];
          enemies1 = (if waveNumber \<ge> 2
                      then enemies0 @ [\<lparr>g_type = SCOUT,
                                         g_count = \<lfloor>3 * difficultyMult\<rfloor>,
                                         interval = 40,
                                         hpMultiplier = difficultyMult * 0.8\<rparr>]
                      else enemies0);
          enemies2 = (if waveNumber \<ge> 4 \<and> waveNumber mod 2 = 0
                      then enemies1 @ [\<lparr>g_type = TANK,
                                         g_count = \<lfloor>1 + real_of_int waveNumber / 5\<rfloor>,
                                         interval = 100,
                                         hpMultiplier = difficultyMult * 1.5\<rparr>]
                      else enemies1);
          enemies3 = (if waveNumber mod 10 = 0
                      then enemies2 @ [\<lparr>g_type = BOSS,
                                         g_count = 1,
                                         interval = 200,
                                         hpMultiplier = difficultyMult * 4\<rparr>]
                      else enemies2)
      in \<lparr>wc_enemies = enemies3,
          briefing = ''[SIMULATION MODE] Neural uplink offline. Wave '' @ numberToString waveNumber
                     @ '' generated via local combat algorithms.''\<rparr>)"

text \<open>
  The text-generation request is an external call: \<open>ai client waveNumber difficultyMod\<close>
  is \<open>Some c\<close> when the request returned text that parsed to the composition \<open>c\<close>, and
  \<open>None\<close> for everything the \<open>try\<close> block catches (a failed request, an empty
  response, text that is not JSON).
\<close>

type_synonym ai_service = "string \<Rightarrow> int \<Rightarrow> real \<Rightarrow> WaveComposition option"

definition generateWave :: "environment \<Rightarrow> ai_service \<Rightarrow> int \<Rightarrow> real \<Rightarrow> WaveComposition" where
  "generateWave env ai waveNumber difficultyMod =
     (case getClient env of
        None \<Rightarrow> generateFallbackWave waveNumber
      | Some client \<Rightarrow>
          (case ai client waveNumber difficultyMod of
             Some c \<Rightarrow> c
           | None \<Rightarrow> generateFallbackWave waveNumber))"

section \<open>The game (App.tsx and the GameCanvas component)\<close>

text \<open>
  The host supplies what the program cannot compute itself: \<open>random h k\<close> is the
  result of the \<open>k\<close>-th call of \<open>Math.random()\<close>, \<open>toString36 h r\<close> is
  \<open>r.toString(36).substr(2, 9)\<close> and \<open>toString10 h r\<close> is \<open>r.toString()\<close>.
\<close>

record host =
  random :: "nat \<Rightarrow> real"
  toString36 :: "real \<Rightarrow> string"
  toString10 :: "real \<Rightarrow> string"

text \<open>
  One record holds the React state of \<open>App\<close> and the refs of \<open>GameCanvas\<close>.
  State updaters queued with \<open>setGameState\<close> are applied in the order they are queued;
  \<open>update\<close> and \<open>handleCanvasClick\<close> read \<open>gameState\<close> as it is when they start.
  \<open>randomCalls\<close> counts the calls of \<open>Math.random()\<close> made so far, and
  \<open>waveCompleteCalls\<close> counts the calls of \<open>onWaveComplete\<close>; neither is a field of
  the program.
\<close>

record game =
  gameState :: GameState
  selectedTower :: "TowerType option"
  waveComposition :: "WaveComposition option"
  isWaveGenerating :: bool
  waveBriefing :: string
  aiAdvice :: string
  enemies :: "EnemyEntity list"
  towers :: "TowerEntity list"
  projectiles :: "ProjectileEntity list"
  particles :: "Particle list"
  frameCount :: nat
  spawnIndex :: nat
  spawnTimer :: int
  enemiesToSpawn :: "SpawnGroup list"
  randomCalls :: nat
  waveCompleteCalls :: nat

definition initialGame :: game where
  "initialGame =
     \<lparr>gameState = \<lparr>money = INITIAL_MONEY, lives = INITIAL_LIVES, wave = 0,
                    isPlaying = False, isGameOver = False, gameSpeed = 1\<rparr>,
      selectedTower = None,
      waveComposition = None,
      isWaveGenerating = False,
      waveBriefing = ''System online. Awaiting command.'',
      aiAdvice = [],
      enemies = [], towers = [], projectiles = [], particles = [],
      frameCount = 0, spawnIndex = 0, spawnTimer = 0, enemiesToSpawn = [],
      randomCalls = 0, waveCompleteCalls = 0\<rparr>"

subsection \<open>App.tsx\<close>

definition handleWaveComplete :: "game \<Rightarrow> game" where
  "handleWaveComplete g =
     g\<lparr>gameState := (gameState g)\<lparr>isPlaying := False\<rparr>,
       waveComposition := None,
       aiAdvice := ''Wave clear. Repairs unavailable. Prepare for next assault.''\<rparr>"

definition handleGameOver :: "game \<Rightarrow> game" where
  "handleGameOver g = g\<lparr>gameState := (gameState g)\<lparr>isGameOver := True, isPlaying := False\<rparr>\<rparr>"

text \<open>
  \<open>startNextWave\<close>, with the awaited \<open>generateWave\<close> taken as one step (so
  \<open>isWaveGenerating\<close> is set and cleared within it), followed by the effect of
  \<open>GameCanvas\<close> that copies the new composition into the spawn queue.
\<close>

definition startNextWave :: "environment \<Rightarrow> ai_service \<Rightarrow> game \<Rightarrow> game" where
  "startNextWave env ai g =
     (if isPlaying (gameState g) \<or> isWaveGenerating g then g
      else
        let nextWave = wave (gameState g) + 1;
            diffMod = 1.0 + (real_of_int nextWave * 0.15);
            waveData = generateWave env ai nextWave diffMod
        in g\<lparr>waveComposition := Some waveData,
             waveBriefing := briefing waveData,
             gameState := (gameState g)\<lparr>wave := nextWave, isPlaying := True\<rparr>,
             enemiesToSpawn := wc_enemies waveData,
             spawnIndex := 0,
             spawnTimer := 0\<rparr>)"

subsection \<open>GameCanvas: helpers\<close>

definition dist :: "real \<Rightarrow> real \<Rightarrow> real \<Rightarrow> real \<Rightarrow> real" where
  "dist x1 y1 x2 y2 = sqrt ((x2 - x1)\<^sup>2 + (y2 - y1)\<^sup>2)"

fun createParticles :: "host \<Rightarrow> real \<Rightarrow> real \<Rightarrow> string \<Rightarrow> nat \<Rightarrow> game \<Rightarrow> game" where
  "createParticles h x y color 0 g = g"
| "createParticles h x y color (Suc n) g =
     (let k = randomCalls g;
          p = \<lparr>pt_id = toString10 h (random h k),
               pt_x = x, pt_y = y,
               vx = (random h (k + 1) - 0.5) * 4,
               vy = (random h (k + 2) - 0.5) * 4,
               life = 20 + random h (k + 3) * 20,
               maxLife = 40,
               pt_color = color,
               pt_size = 2 + random h (k + 4) * 3\<rparr>
      in createParticles h x y color n (g\<lparr>particles := particles g @ [p], randomCalls := k + 5\<rparr>))"

definition damageEnemy :: "host \<Rightarrow> EnemyEntity \<Rightarrow> real \<Rightarrow> game \<Rightarrow> EnemyEntity \<times> game" where
  "damageEnemy h enemy dmg g =
     (let enemy' = enemy\<lparr>hp := hp enemy - dmg\<rparr>
      in if hp enemy' \<le> 0
         then (enemy',
               createParticles h (e_x enemy') (e_y enemy') (c_color (ENEMY_STATS (e_type enemy'))) 10
                 (g\<lparr>gameState := (gameState g)
                      \<lparr>money := money (gameState g) + bounty (ENEMY_STATS (e_type enemy'))\<rparr>\<rparr>))
         else (enemy', g))"

subsection \<open>GameCanvas: the phases of \<open>update\<close>\<close>

text \<open>Phase 1: spawning, or the wave-complete signal when nothing is left.\<close>

definition onWaveComplete :: "game \<Rightarrow> game" where
  "onWaveComplete g = handleWaveComplete (g\<lparr>waveCompleteCalls := Suc (waveCompleteCalls g)\<rparr>)"

definition spawning :: "host \<Rightarrow> game \<Rightarrow> game" where
  "spawning h g =
     (case enemiesToSpawn g of
        currentGroup # rest \<Rightarrow>
          (let timer = spawnTimer g + 1 in
           if timer \<ge> interval currentGroup then
             (let stats = ENEMY_STATS (g_type currentGroup);
                  startNode = PATH_WAYPOINTS ! 0;
                  newEnemy = \<lparr>e_id = toString36 h (random h (randomCalls g)),
                              e_type = g_type currentGroup,
                              e_x = vec_x startNode,
                              e_y = vec_y startNode,
                              hp = c_hp stats * hpMultiplier currentGroup,
                              maxHp = c_hp stats * hpMultiplier currentGroup,
                              e_speed = c_speed stats,
                              pathIndex = 0,
                              frozen = 0,
                              distanceTraveled = 0\<rparr>;
                  count' = g_count currentGroup - 1
              in g\<lparr>spawnTimer := 0,
                   randomCalls := Suc (randomCalls g),
                   enemies := enemies g @ [newEnemy],
                   enemiesToSpawn := (if count' \<le> 0 then rest
                                      else currentGroup\<lparr>g_count := count'\<rparr> # rest)\<rparr>)
           else g\<lparr>spawnTimer := timer\<rparr>)
      | [] \<Rightarrow>
          if enemies g = [] \<and> waveComposition g \<noteq> None then onWaveComplete g else g)"

text \<open>
  Phase 2: movement. An enemy with no next waypoint has reached the base: its hit
  points are zeroed and a life is taken.
\<close>

definition loseLife :: "game \<Rightarrow> game" where
  "loseLife g =
     (let newLives = lives (gameState g) - 1;
          g' = g\<lparr>gameState := (gameState g)\<lparr>lives := newLives\<rparr>\<rparr>
      in if newLives \<le> 0 then handleGameOver g' else g')"

definition updateEnemy :: "EnemyEntity \<Rightarrow> game \<Rightarrow> EnemyEntity \<times> game" where
  "updateEnemy enemy0 g =
     (let enemy = (if frozen enemy0 > 0 then enemy0\<lparr>frozen := frozen enemy0 - 1\<rparr> else enemy0);
          currentSpeed = (if frozen enemy > 0 then e_speed enemy * 0.5 else e_speed enemy)
      in if pathIndex enemy + 1 < length PATH_WAYPOINTS then
           (let targetNode = PATH_WAYPOINTS ! (pathIndex enemy + 1);
                dx = vec_x targetNode - e_x enemy;
                dy = vec_y targetNode - e_y enemy;
                distance = sqrt (dx * dx + dy * dy);
                moved = (if distance < currentSpeed
                         then enemy\<lparr>e_x := vec_x targetNode,
                                    e_y := vec_y targetNode,
                                    pathIndex := pathIndex enemy + 1\<rparr>
                         else enemy\<lparr>e_x := e_x enemy + (dx / distance) * currentSpeed,
                                    e_y := e_y enemy + (dy / distance) * currentSpeed\<rparr>)
            in (moved\<lparr>distanceTraveled := distanceTraveled moved + currentSpeed\<rparr>, g))
         else (enemy\<lparr>hp := 0\<rparr>, loseLife g))"

fun updateEnemies :: "EnemyEntity list \<Rightarrow> game \<Rightarrow> EnemyEntity list \<times> game" where
  "updateEnemies [] g = ([], g)"
| "updateEnemies (enemy # rest) g =
     (let (enemy', g') = updateEnemy enemy g;
          (rest', g'') = updateEnemies rest g'
      in (enemy' # rest', g''))"

definition moveEnemies :: "game \<Rightarrow> game" where
  "moveEnemies g = (let (es, g') = updateEnemies (enemies g) g in g'\<lparr>enemies := es\<rparr>)"

definition removeDead :: "game \<Rightarrow> game" where
  "removeDead g = g\<lparr>enemies := filter (\<lambda>e. hp e > 0) (enemies g)\<rparr>"

text \<open>Phase 3: towers count down and fire at the enemy in range that has travelled furthest.\<close>

definition findTarget :: "TowerEntity \<Rightarrow> EnemyEntity list \<Rightarrow> EnemyEntity option" where
  "findTarget tower es =
     fst (foldl (\<lambda>(target, maxDist) enemy.
                   if dist (t_x tower) (t_y tower) (e_x enemy) (e_y enemy) \<le> t_range tower
                      \<and> distanceTraveled enemy > maxDist
                   then (Some enemy, distanceTraveled enemy)
                   else (target, maxDist))
                (None, - 1) es)"

definition towerFire :: "host \<Rightarrow> TowerEntity \<Rightarrow> game \<Rightarrow> TowerEntity \<times> game" where
  "towerFire h tower0 g =
     (let tower = (if cooldownTimer tower0 > 0
                   then tower0\<lparr>cooldownTimer := cooldownTimer tower0 - 1\<rparr> else tower0)
      in if cooldownTimer tower \<le> 0 then
           (case findTarget tower (enemies g) of
              Some target \<Rightarrow>
                (let stats = TOWER_STATS (t_type tower);
                     p = \<lparr>p_id = toString10 h (random h (randomCalls g)),
                          p_x = t_x tower,
                          p_y = t_y tower,
                          targetId = e_id target,
                          p_damage = t_damage tower,
                          p_speed = 10,
                          p_color = tc_color stats,
                          isAoE = (t_type tower = CANNON),
                          slowEffect = (if t_type tower = SLOW then 60 else 0)\<rparr>
                 in (tower\<lparr>cooldownTimer := cooldown stats\<rparr>,
                     g\<lparr>projectiles := projectiles g @ [p],
                       randomCalls := Suc (randomCalls g)\<rparr>))
            | None \<Rightarrow> (tower, g))
         else (tower, g))"

fun towersLoop :: "host \<Rightarrow> TowerEntity list \<Rightarrow> game \<Rightarrow> TowerEntity list \<times> game" where
  "towersLoop h [] g = ([], g)"
| "towersLoop h (tower # rest) g =
     (let (tower', g') = towerFire h tower g;
          (rest', g'') = towersLoop h rest g'
      in (tower' # rest', g''))"

definition towersFire :: "host \<Rightarrow> game \<Rightarrow> game" where
  "towersFire h g = (let (ts, g') = towersLoop h (towers g) g in g'\<lparr>towers := ts\<rparr>)"

text \<open>
  Phase 4: projectiles, from the last index down. The target is the first enemy of
  the list with the projectile's \<open>targetId\<close>; damage is written back to that entry.
\<close>

fun replace_first :: "('a \<Rightarrow> bool) \<Rightarrow> 'a \<Rightarrow> 'a list \<Rightarrow> 'a list" where
  "replace_first P y [] = []"
| "replace_first P y (x # xs) = (if P x then y # xs else x # replace_first P y xs)"

fun splash :: "host \<Rightarrow> real \<Rightarrow> real \<Rightarrow> real \<Rightarrow> EnemyEntity list \<Rightarrow> game
    \<Rightarrow> EnemyEntity list \<times> game" where
  "splash h tx ty dmg [] g = ([], g)"
| "splash h tx ty dmg (e # rest) g =
     (let (e', g') = (if dist tx ty (e_x e) (e_y e) < 60 then damageEnemy h e dmg g else (e, g));
          (rest', g'') = splash h tx ty dmg rest g'
      in (e' # rest', g''))"

definition updateProjectile :: "host \<Rightarrow> ProjectileEntity \<Rightarrow> game
    \<Rightarrow> ProjectileEntity option \<times> game" where
  "updateProjectile h p g =
     (case find (\<lambda>e. e_id e = targetId p) (enemies g) of
        None \<Rightarrow> (None, g)
      | Some target \<Rightarrow>
          (let dx = e_x target - p_x p;
               dy = e_y target - p_y p;
               distance = sqrt (dx * dx + dy * dy)
           in if distance < p_speed p then
                (if isAoE p then
                   (let (es, g') = splash h (e_x target) (e_y target) (p_damage p) (enemies g) g
                    in (None,
                        createParticles h (e_x target) (e_y target) (p_color p) 8
                          (g'\<lparr>enemies := es\<rparr>)))
                 else
                   (let (hit, g') = damageEnemy h target (p_damage p) g;
                        hit' = (if slowEffect p > 0 then hit\<lparr>frozen := slowEffect p\<rparr> else hit)
                    in (None,
                        createParticles h (e_x target) (e_y target) (p_color p) 3
                          (g'\<lparr>enemies :=
                               replace_first (\<lambda>e. e_id e = targetId p) hit' (enemies g')\<rparr>))))
              else
                (Some (p\<lparr>p_x := p_x p + (dx / distance) * p_speed p,
                         p_y := p_y p + (dy / distance) * p_speed p\<rparr>),
                 g)))"

fun projectilesLoop :: "host \<Rightarrow> ProjectileEntity list \<Rightarrow> game
    \<Rightarrow> ProjectileEntity list \<times> game" where
  "projectilesLoop h [] g = ([], g)"
| "projectilesLoop h (p # rest) g =
     (let (rest', g') = projectilesLoop h rest g;
          (r, g'') = updateProjectile h p g'
      in (case r of None \<Rightarrow> (rest', g'') | Some p' \<Rightarrow> (p' # rest', g'')))"

definition updateProjectiles :: "host \<Rightarrow> game \<Rightarrow> game" where
  "updateProjectiles h g =
     (let (ps, g') = projectilesLoop h (projectiles g) g in g'\<lparr>projectiles := ps\<rparr>)"

text \<open>Phase 5: particles drift and fade.\<close>

definition updateParticles :: "game \<Rightarrow> game" where
  "updateParticles g =
     g\<lparr>particles :=
         filter (\<lambda>p. \<not> life p \<le> 0)
           (map (\<lambda>p. p\<lparr>pt_x := pt_x p + vx p, pt_y := pt_y p + vy p, life := life p - 1\<rparr>)
              (particles g))\<rparr>"

subsection \<open>GameCanvas: \<open>update\<close>\<close>

definition update :: "host \<Rightarrow> game \<Rightarrow> game" where
  "update h g =
     (if isGameOver (gameState g) \<or> \<not> isPlaying (gameState g) then g
      else
        (let g1 = spawning h g;
             g2 = removeDead (moveEnemies g1);
             g3 = towersFire h g2;
             g4 = updateProjectiles h g3;
             g5 = updateParticles g4
         in g5\<lparr>frameCount := Suc (frameCount g5)\<rparr>))"

fun run :: "host \<Rightarrow> nat \<Rightarrow> game \<Rightarrow> game" where
  "run h 0 g = g"
| "run h (Suc n) g = run h n (update h g)"

subsection \<open>GameCanvas: \<open>handleCanvasClick\<close>\<close>

text \<open>
  A click carries the pointer position; \<open>rect\<close> is the canvas rectangle's left and
  top, or \<open>None\<close> when the canvas ref is empty. The function returns nothing in the
  source; here each early return is tagged with the check that took it.
\<close>

record MouseEvent =
  clientX :: real
  clientY :: real

datatype rejection =
  NoTowerSelected | GameIsOver | NoCanvas | InsufficientFunds | CellOccupied | OnPath

definition snap :: "real \<Rightarrow> real" where
  "snap m = real_of_int (\<lfloor>m / real_of_int GRID_SIZE\<rfloor> * GRID_SIZE) + real_of_int GRID_SIZE / 2"

definition onPath :: "real \<Rightarrow> real \<Rightarrow> bool" where
  "onPath gridX gridY =
     list_ex (\<lambda>i.
        let p1 = PATH_WAYPOINTS ! i;
            p2 = PATH_WAYPOINTS ! (i + 1);
            minX = min (vec_x p1) (vec_x p2) - real_of_int GRID_SIZE / 2;
            maxX = max (vec_x p1) (vec_x p2) + real_of_int GRID_SIZE / 2;
            minY = min (vec_y p1) (vec_y p2) - real_of_int GRID_SIZE / 2;
            maxY = max (vec_y p1) (vec_y p2) + real_of_int GRID_SIZE / 2
        in gridX \<ge> minX \<and> gridX \<le> maxX \<and> gridY \<ge> minY \<and> gridY \<le> maxY)
       [0 ..< length PATH_WAYPOINTS - 1]"

definition handleCanvasClick :: "host \<Rightarrow> (real \<times> real) option \<Rightarrow> MouseEvent \<Rightarrow> game
    \<Rightarrow> rejection option \<times> game" where
  "handleCanvasClick h rect ev g =
     (case selectedTower g of
        None \<Rightarrow> (Some NoTowerSelected, g)
      | Some selected \<Rightarrow>
          if isGameOver (gameState g) then (Some GameIsOver, g)
          else
            (case rect of
               None \<Rightarrow> (Some NoCanvas, g)
             | Some (rleft, rtop) \<Rightarrow>
                 (let mouseX = clientX ev - rleft;
                      mouseY = clientY ev - rtop;
                      gridX = snap mouseX;
                      gridY = snap mouseY;
                      stats = TOWER_STATS selected
                  in if money (gameState g) < cost stats then (Some InsufficientFunds, g)
                     else if list_ex (\<lambda>t. t_x t = gridX \<and> t_y t = gridY) (towers g)
                       then (Some CellOccupied, g)
                     else if onPath gridX gridY then (Some OnPath, g)
                     else
                       (let newTower = \<lparr>t_id = toString10 h (random h (randomCalls g)),
                                         t_type = selected,
                                         t_x = gridX,
                                         t_y = gridY,
                                         cooldownTimer = 0,
                                         level = 1,
                                         t_range = tc_range stats,
                                         t_damage = tc_damage stats,
                                         fireRate = cooldown stats\<rparr>;
                            g' = g\<lparr>towers := towers g @ [newTower],
                                   randomCalls := Suc (randomCalls g),
                                   gameState := (gameState g)
                                     \<lparr>money := money (gameState g) - cost stats\<rparr>\<rparr>
                        in (None, createParticles h gridX gridY ''#fff'' 10 g')))))"

definition click :: "host \<Rightarrow> (real \<times> real) option \<Rightarrow> MouseEvent \<Rightarrow> game \<Rightarrow> game" where
  "click h rect ev g = snd (handleCanvasClick h rect ev g)"

subsection \<open>Everything that can happen to a game\<close>

text \<open>
  A frame of the render loop, a click on the canvas, a choice in the build menu, the
  start-wave button (disabled in the overlay while the game is over) and the arrival of
  an advice text. A game is reachable when some sequence of these leads to it from the
  initial state.
\<close>

datatype event =
  Frame
| Click "(real \<times> real) option" MouseEvent
| Select "TowerType option"
| StartWave environment ai_service
| Advice string

fun perform :: "host \<Rightarrow> event \<Rightarrow> game \<Rightarrow> game" where
  "perform h Frame g = update h g"
| "perform h (Click rect ev) g = click h rect ev g"
| "perform h (Select t) g = g\<lparr>selectedTower := t\<rparr>"
| "perform h (StartWave env ai) g =
     (if isGameOver (gameState g) then g else startNextWave env ai g)"
| "perform h (Advice txt) g = g\<lparr>aiAdvice := txt\<rparr>"

fun performAll :: "host \<Rightarrow> event list \<Rightarrow> game \<Rightarrow> game" where
  "performAll h [] g = g"
| "performAll h (ev # evs) g = performAll h evs (perform h ev g)"

fun startsWave :: "event \<Rightarrow> bool" where
  "startsWave (StartWave env ai) = True"
| "startsWave ev = False"

definition reachable :: "host \<Rightarrow> game \<Rightarrow> bool" where
  "reachable h g = (\<exists>evs. g = performAll h evs initialGame)"

text \<open>While a wave is being played, its composition is held.\<close>

definition staffed :: "game \<Rightarrow> bool" where
  "staffed g = (\<not> isPlaying (gameState g) \<or> waveComposition g \<noteq> None)"

text \<open>
  The course of a wave of three grunts spawned ten frames apart on a board without
  towers, \<open>k\<close> frames in: the timer, the queue, the number of enemies, and where the
  enemies can be.
\<close>

definition spawnRun :: "nat \<Rightarrow> game \<Rightarrow> bool" where
  "spawnRun k g =
     (isPlaying (gameState g) \<and> \<not> isGameOver (gameState g)
      \<and> towers g = [] \<and> projectiles g = []
      \<and> spawnTimer g = (if k < 30 then int (k mod 10) else 0)
      \<and> length (enemies g) = (if k < 30 then k div 10 else 3)
      \<and> enemiesToSpawn g =
          (if k < 30
           then [\<lparr>g_type = grunt, g_count = 3 - int (k div 10), interval = 10, hpMultiplier = 1\<rparr>]
           else [])
      \<and> list_all (\<lambda>e. e_type e = grunt \<and> hp e = 80 \<and> pathIndex e = 0 \<and> frozen e = 0
                      \<and> e_speed e = 1.5 \<and> e_y e = 100
                      \<and> 20 \<le> e_x e \<and> e_x e \<le> 20 + 1.5 * real k)
           (enemies g))"

section \<open>Example inputs\<close>

definition demoHost :: host where
  "demoHost = \<lparr>random = (\<lambda>k. 1 / 2), toString36 = (\<lambda>r. ''e''), toString10 = (\<lambda>r. ''p'')\<rparr>"

definition buildClick :: MouseEvent where
  "buildClick = \<lparr>clientX = 58, clientY = 31\<rparr>"

definition buildGame :: game where
  "buildGame = initialGame\<lparr>selectedTower := Some BLASTER\<rparr>"

definition sniperGame :: game where
  "sniperGame = initialGame\<lparr>selectedTower := Some SNIPER\<rparr>"


definition playingGame :: game where
  "playingGame =
     initialGame\<lparr>gameState := (gameState initialGame)\<lparr>wave := 1, isPlaying := True\<rparr>,
                 waveComposition := Some (generateFallbackWave 1)\<rparr>"

text \<open>Two enemies stand on the last waypoint while one life is left.\<close>

definition twoLeakers :: game where
  "twoLeakers =
     playingGame\<lparr>gameState := (gameState playingGame)\<lparr>lives := 1\<rparr>,
                 enemies :=
                   [\<lparr>e_id = ''a'', e_type = grunt, e_x = 820, e_y = 540, hp = 96, maxHp = 96,
                     e_speed = 1.5, pathIndex = 9, frozen = 0, distanceTraveled = 2370\<rparr>,
                    \<lparr>e_id = ''b'', e_type = SCOUT, e_x = 820, e_y = 540, hp = 36, maxHp = 36,
                     e_speed = 2.5, pathIndex = 9, frozen = 0, distanceTraveled = 2382.5\<rparr>]\<rparr>"

text \<open>A grunt on the first path segment in the last frame of a slow effect.\<close>

definition lastSlowFrame :: EnemyEntity where
  "lastSlowFrame =
     \<lparr>e_id = ''a'', e_type = grunt, e_x = 50, e_y = 100, hp = 94, maxHp = 96,
      e_speed = 1.5, pathIndex = 0, frozen = 1, distanceTraveled = 30\<rparr>"

text \<open>
  A grunt with 6 hit points left between two Pulse Turrets, each of whose shots
  (damage 15) is about to land.
\<close>

definition weakGrunt :: EnemyEntity where
  "weakGrunt =
     \<lparr>e_id = ''a'', e_type = grunt, e_x = 50, e_y = 100, hp = 6, maxHp = 96,
      e_speed = 1.5, pathIndex = 0, frozen = 0, distanceTraveled = 30\<rparr>"

definition pulseTurret :: "real \<Rightarrow> real \<Rightarrow> TowerEntity" where
  "pulseTurret x y =
     \<lparr>t_id = ''t'', t_type = BLASTER, t_x = x, t_y = y, cooldownTimer = 15, level = 1,
      t_range = 120, t_damage = 15, fireRate = 20\<rparr>"

definition pulseShot :: "real \<Rightarrow> real \<Rightarrow> ProjectileEntity" where
  "pulseShot x y =
     \<lparr>p_id = ''s'', p_x = x, p_y = y, targetId = ''a'', p_damage = 15, p_speed = 10,
      p_color = ''#38bdf8'', isAoE = False, slowEffect = 0\<rparr>"

definition doubleHit :: game where
  "doubleHit =
     playingGame\<lparr>gameState := (gameState playingGame)\<lparr>money := 20\<rparr>,
                 enemies := [weakGrunt],
                 towers := [pulseTurret 60 60, pulseTurret 60 140],
                 projectiles := [pulseShot 51.5 95, pulseShot 51.5 105]\<rparr>"

definition killShot :: game where
  "killShot =
     playingGame\<lparr>gameState := (gameState playingGame)\<lparr>money := 70\<rparr>,
                 enemies := [weakGrunt],
                 towers := [pulseTurret 60 60],
                 projectiles := [pulseShot 51.5 95]\<rparr>"

text \<open>A configured key and a service that answers with a wave of no enemies.\<close>

definition emptyWaveService :: ai_service where
  "emptyWaveService = (\<lambda>client waveNumber difficultyMod.
     Some \<lparr>wc_enemies = [], briefing = ''All quiet.''\<rparr>)"

definition emptyWaveGame :: game where
  "emptyWaveGame = performAll demoHost [StartWave (Some (Some ''key'')) emptyWaveService] initialGame"

definition afterKill :: game where
  "afterKill = update demoHost killShot"

text \<open>A wave of three grunts, ten frames apart, about to begin on an empty board.\<close>

definition threeGrunts :: game where
  "threeGrunts =
     playingGame\<lparr>waveComposition :=
                   Some \<lparr>wc_enemies = [\<lparr>g_type = grunt, g_count = 3, interval = 10,
                                          hpMultiplier = 1\<rparr>],
                         briefing = ''Three grunts.''\<rparr>,
                 enemiesToSpawn := [\<lparr>g_type = grunt, g_count = 3, interval = 10,
                                      hpMultiplier = 1\<rparr>]\<rparr>"
section \<open>The fallback wave generator\<close>

text \<open>
  C8. For wave number 10 the deterministic fallback generator returns a composition
  with exactly one boss group; that group has count 1, and its hit-point multiplier is
  four times the generator's own difficulty multiplier \<open>1 + 10 * 0.2\<close>, hence at least
  four times it, and also at least four times the multiplier \<open>1 + 10 * 0.15\<close> that
  \<open>startNextWave\<close> computes for the same wave.
\<close>

theorem fallback_wave_10_has_one_boss:
  "filter (\<lambda>grp. g_type grp = BOSS) (wc_enemies (generateFallbackWave 10))
     = [\<lparr>g_type = BOSS, g_count = 1, interval = 200, hpMultiplier = 12\<rparr>]
   \<and> (12 :: real) \<ge> 4 * (1 + real_of_int 10 * 0.2)
   \<and> (12 :: real) \<ge> 4 * (1.0 + real_of_int 10 * 0.15)"
  by (simp add: generateFallbackWave_def Let_def)

text \<open>
  C10. When no API credential is configured (\<open>getApiKey\<close> finds none), the result of
  \<open>generateWave\<close> is the fallback composition for the wave number, whatever the
  difficulty argument and whatever the external service would have answered: two calls
  with the same wave number return identical compositions, and the difficulty used is
  \<open>1 + 0.2 * waveNumber\<close>, the multiplier of the first group. The call cannot throw:
  the fallback path is a total computation.
\<close>

theorem generateWave_offline_ignores_difficulty:
  assumes "getApiKey env = None"
  shows "generateWave env ai w d1 = generateWave env ai' w d2
       \<and> generateWave env ai w d1 = generateFallbackWave w
       \<and> hpMultiplier (hd (wc_enemies (generateWave env ai w d1))) = 1 + 0.2 * real_of_int w"
proof -
  have client: "getClient env = None"
    using assms by (simp add: getClient_def)
  have fallback: "\<And>svc d. generateWave env svc w d = generateFallbackWave w"
    by (simp add: generateWave_def client)
  have first: "hpMultiplier (hd (wc_enemies (generateFallbackWave w))) = 1 + 0.2 * real_of_int w"
    by (simp add: generateFallbackWave_def Let_def)
  show ?thesis
    by (simp only: fallback first simp_thms)
qed

theorem generateWave_offline_witness:
  "getApiKey (Some (Some ''  '')) = None
   \<and> generateWave (Some (Some ''  '')) (\<lambda>c n d. Some \<lparr>wc_enemies = [], briefing = c\<rparr>) 3 1.45
       = generateWave (Some (Some ''  '')) (\<lambda>c n d. None) 3 9
   \<and> wc_enemies (generateWave (Some (Some ''  '')) (\<lambda>c n d. None) 3 9)
       = [\<lparr>g_type = grunt, g_count = 8, interval = 54, hpMultiplier = 1.6\<rparr>,
          \<lparr>g_type = SCOUT, g_count = 4, interval = 40, hpMultiplier = 1.28\<rparr>]"
proof -
  have key: "getApiKey (Some (Some ''  '')) = None"
    by (simp add: getApiKey_def trim_def is_space_def)
  have comp: "wc_enemies (generateFallbackWave 3)
       = [\<lparr>g_type = grunt, g_count = 8, interval = 54, hpMultiplier = 1.6\<rparr>,
          \<lparr>g_type = SCOUT, g_count = 4, interval = 40, hpMultiplier = 1.28\<rparr>]"
    by (simp add: generateFallbackWave_def Let_def)
  from generateWave_offline_ignores_difficulty [OF key] key comp
  show ?thesis by simp
qed

section \<open>What each helper leaves alone\<close>

lemma createParticles_keeps [simp]:
  "gameState (createParticles h x y c n g) = gameState g"
  "selectedTower (createParticles h x y c n g) = selectedTower g"
  "waveComposition (createParticles h x y c n g) = waveComposition g"
  "enemies (createParticles h x y c n g) = enemies g"
  "towers (createParticles h x y c n g) = towers g"
  "projectiles (createParticles h x y c n g) = projectiles g"
  "spawnTimer (createParticles h x y c n g) = spawnTimer g"
  "enemiesToSpawn (createParticles h x y c n g) = enemiesToSpawn g"
  "waveCompleteCalls (createParticles h x y c n g) = waveCompleteCalls g"
  by (induction n arbitrary: g) (simp_all add: Let_def)

lemma createParticles_length [simp]:
  "length (particles (createParticles h x y c n g)) = length (particles g) + n"
  by (induction n arbitrary: g) (simp_all add: Let_def)

lemma damageEnemy_fst [simp]: "fst (damageEnemy h e d g) = e\<lparr>hp := hp e - d\<rparr>"
  by (simp add: damageEnemy_def Let_def)

lemma damageEnemy_keeps [simp]:
  "selectedTower (snd (damageEnemy h e d g)) = selectedTower g"
  "waveComposition (snd (damageEnemy h e d g)) = waveComposition g"
  "enemies (snd (damageEnemy h e d g)) = enemies g"
  "towers (snd (damageEnemy h e d g)) = towers g"
  "projectiles (snd (damageEnemy h e d g)) = projectiles g"
  "spawnTimer (snd (damageEnemy h e d g)) = spawnTimer g"
  "enemiesToSpawn (snd (damageEnemy h e d g)) = enemiesToSpawn g"
  "waveCompleteCalls (snd (damageEnemy h e d g)) = waveCompleteCalls g"
  by (simp_all add: damageEnemy_def Let_def)

lemma damageEnemy_gameState:
  "gameState (snd (damageEnemy h e d g)) =
     (gameState g)\<lparr>money := money (gameState g)
        + (if hp e - d \<le> 0 then bounty (ENEMY_STATS (e_type e)) else 0)\<rparr>"
  by (simp add: damageEnemy_def Let_def)

lemma bounty_nonneg: "0 \<le> bounty (ENEMY_STATS ty)"
  by (cases ty) simp_all


section \<open>Non-playing steps and rejected clicks\<close>

lemma update_idle: "isGameOver (gameState g) \<or> \<not> isPlaying (gameState g) \<Longrightarrow> update h g = g"
  by (simp add: update_def)

lemma run_idle: "isGameOver (gameState g) \<or> \<not> isPlaying (gameState g) \<Longrightarrow> run h n g = g"
  by (induction n) (simp_all add: update_idle)

text \<open>
  C9. For every game state with an empty spawn queue, an empty enemy list and
  \<open>isPlaying = false\<close>, the simulation step returns the state it was given: no field
  of the game state and no entity list changes. (The early return needs only that
  the game is not playing.)
\<close>

theorem update_not_playing_is_identity:
  assumes "enemiesToSpawn g = []" and "enemies g = []" and "\<not> isPlaying (gameState g)"
  shows "update h g = g"
  using assms(3) by (simp add: update_def)

theorem update_not_playing_witness:
  "enemiesToSpawn initialGame = [] \<and> enemies initialGame = []
   \<and> \<not> isPlaying (gameState initialGame) \<and> update demoHost initialGame = initialGame"
proof -
  have a: "enemiesToSpawn initialGame = []" and b: "enemies initialGame = []"
    and c: "\<not> isPlaying (gameState initialGame)"
    by (simp_all add: initialGame_def)
  from update_not_playing_is_identity [OF a b c] a b c show ?thesis by simp
qed


section \<open>Placement\<close>

text \<open>
  C5. A placement click is checked in this order: no tower type selected; game over;
  (no canvas rectangle;) insufficient funds; grid cell occupied by a tower; cell inside a
  path segment's bounding box inflated by half a grid cell. Each rejection reason is
  returned exactly when all earlier checks pass and its own check fails. Every rejected
  click leaves the whole game unchanged; the function is total, so nothing is raised.
  A successful placement deducts exactly the tower's cost and appends one tower at the
  snapped grid coordinate with cooldown zero; enemies and projectiles are untouched.
\<close>

theorem handleCanvasClick_order_and_effect:
  "(let r = handleCanvasClick h rect ev g in
     (fst r = Some NoTowerSelected \<longleftrightarrow> selectedTower g = None)
   \<and> (fst r = Some GameIsOver \<longleftrightarrow> selectedTower g \<noteq> None \<and> isGameOver (gameState g))
   \<and> (fst r = Some NoCanvas \<longleftrightarrow>
        selectedTower g \<noteq> None \<and> \<not> isGameOver (gameState g) \<and> rect = None)
   \<and> (\<forall>selected rleft rtop.
        selectedTower g = Some selected \<and> \<not> isGameOver (gameState g) \<and> rect = Some (rleft, rtop)
        \<longrightarrow>
        (let gridX = snap (clientX ev - rleft);
             gridY = snap (clientY ev - rtop);
             stats = TOWER_STATS selected;
             occupied = list_ex (\<lambda>t. t_x t = gridX \<and> t_y t = gridY) (towers g)
         in (fst r = Some InsufficientFunds \<longleftrightarrow> money (gameState g) < cost stats)
          \<and> (fst r = Some CellOccupied \<longleftrightarrow> \<not> money (gameState g) < cost stats \<and> occupied)
          \<and> (fst r = Some OnPath \<longleftrightarrow>
               \<not> money (gameState g) < cost stats \<and> \<not> occupied \<and> onPath gridX gridY)
          \<and> (fst r = None \<longleftrightarrow>
               \<not> money (gameState g) < cost stats \<and> \<not> occupied \<and> \<not> onPath gridX gridY)
          \<and> (fst r = None \<longrightarrow>
               gameState (snd r) = (gameState g)\<lparr>money := money (gameState g) - cost stats\<rparr>
             \<and> towers (snd r) = towers g @
                  [\<lparr>t_id = toString10 h (random h (randomCalls g)), t_type = selected,
                    t_x = gridX, t_y = gridY, cooldownTimer = 0, level = 1,
                    t_range = tc_range stats, t_damage = tc_damage stats,
                    fireRate = cooldown stats\<rparr>]
             \<and> enemies (snd r) = enemies g
             \<and> projectiles (snd r) = projectiles g
             \<and> enemiesToSpawn (snd r) = enemiesToSpawn g
             \<and> waveComposition (snd r) = waveComposition g
             \<and> selectedTower (snd r) = selectedTower g)))
   \<and> (fst r \<noteq> None \<longrightarrow> snd r = g))"
proof (cases "selectedTower g")
  case None
  then show ?thesis by (simp add: handleCanvasClick_def)
next
  case (Some selected)
  show ?thesis
  proof (cases "isGameOver (gameState g)")
    case True
    with Some show ?thesis by (simp add: handleCanvasClick_def)
  next
    case False
    show ?thesis
    proof (cases rect)
      case None
      with Some False show ?thesis by (simp add: handleCanvasClick_def)
    next
      case (Some corner)
      obtain rleft rtop where corner: "corner = (rleft, rtop)" by (cases corner)
      from \<open>selectedTower g = Some selected\<close> False Some corner show ?thesis
        by (simp add: handleCanvasClick_def Let_def)
    qed
  qed
qed


lemma onPath_60_20: "\<not> onPath 60 20"
  by (simp add: onPath_def PATH_WAYPOINTS_def GRID_SIZE_def Let_def upt_rec)

theorem handleCanvasClick_witness:
  "fst (handleCanvasClick demoHost (Some (8, 8)) buildClick buildGame) = None
   \<and> money (gameState (snd (handleCanvasClick demoHost (Some (8, 8)) buildClick buildGame))) = 70
   \<and> towers (snd (handleCanvasClick demoHost (Some (8, 8)) buildClick buildGame))
       = [\<lparr>t_id = ''p'', t_type = BLASTER, t_x = 60, t_y = 20, cooldownTimer = 0, level = 1,
           t_range = 120, t_damage = 15, fireRate = 20\<rparr>]
   \<and> handleCanvasClick demoHost (Some (8, 8)) \<lparr>clientX = 108, clientY = 108\<rparr>
         sniperGame
       = (Some InsufficientFunds, sniperGame)"
proof -
  have snaps: "snap 50 = 60" "snap 23 = 20"
    by (simp_all add: snap_def GRID_SIZE_def)
  have sel: "selectedTower buildGame = Some BLASTER" "\<not> isGameOver (gameState buildGame)"
    "money (gameState buildGame) = 120" "towers buildGame = []" "randomCalls buildGame = 0"
    by (simp_all add: buildGame_def initialGame_def INITIAL_MONEY_def)
  have sel2: "selectedTower sniperGame = Some SNIPER"
    "\<not> isGameOver (gameState sniperGame)"
    "money (gameState sniperGame) = 120"
    by (simp_all add: sniperGame_def initialGame_def INITIAL_MONEY_def)
  have placed:
    "fst (handleCanvasClick demoHost (Some (8, 8)) buildClick buildGame) = None
     \<and> money (gameState (snd (handleCanvasClick demoHost (Some (8, 8)) buildClick buildGame))) = 70
     \<and> towers (snd (handleCanvasClick demoHost (Some (8, 8)) buildClick buildGame))
       = [\<lparr>t_id = ''p'', t_type = BLASTER, t_x = 60, t_y = 20, cooldownTimer = 0, level = 1,
           t_range = 120, t_damage = 15, fireRate = 20\<rparr>]"
    using handleCanvasClick_order_and_effect [of demoHost "Some (8, 8)" buildClick buildGame]
    by (simp add: Let_def sel snaps onPath_60_20 buildClick_def demoHost_def)
  have refused:
    "handleCanvasClick demoHost (Some (8, 8)) \<lparr>clientX = 108, clientY = 108\<rparr>
         sniperGame
       = (Some InsufficientFunds, sniperGame)"
    using handleCanvasClick_order_and_effect [of demoHost "Some (8, 8)"
        "\<lparr>clientX = 108, clientY = 108\<rparr>" sniperGame]
    by (simp add: Let_def sel2 prod_eq_iff del: game.simps)
  from placed refused show ?thesis by simp
qed

section \<open>Evaluating concrete steps\<close>

lemma sqrt_28900: "sqrt 28900 = 170"
  using real_sqrt_abs2 [of 170] by simp

lemma sqrt_25: "sqrt 25 = 5"
  using real_sqrt_abs2 [of 5] by simp

lemmas step_defs =
  update_def spawning_def moveEnemies_def updateEnemy_def loseLife_def handleGameOver_def
  removeDead_def towersFire_def towerFire_def updateProjectiles_def updateProjectile_def
  updateParticles_def damageEnemy_def

lemmas example_defs =
  playingGame_def initialGame_def INITIAL_MONEY_def INITIAL_LIVES_def

text \<open>
  C1. The claim is that no step leaves lives or money negative. In the state
  \<open>twoLeakers\<close> one life is left and two enemies stand on the last waypoint; the step
  takes one life for each, so lives end at \<open>-1\<close> (and the game is over).
\<close>

theorem two_leaks_take_lives_below_zero:
  "lives (gameState twoLeakers) = 1
   \<and> lives (gameState (update demoHost twoLeakers)) = - 1
   \<and> isGameOver (gameState (update demoHost twoLeakers))"
  by (simp add: step_defs twoLeakers_def example_defs PATH_WAYPOINTS_def Let_def)

text \<open>
  C4. The claim is that an enemy whose slow timer is positive at the start of a
  movement step moves at half speed in that step. The timer is decremented before it
  is tested, so an enemy with one slowed frame left moves at full speed: the grunt
  \<open>lastSlowFrame\<close> (speed 1.5, at x = 50) ends at x = 51.5, not at 50.75.
\<close>

theorem last_slow_frame_moves_at_full_speed:
  "updateEnemy lastSlowFrame g
     = (lastSlowFrame\<lparr>frozen := 0, e_x := 51.5, distanceTraveled := 31.5\<rparr>, g)
   \<and> e_x lastSlowFrame + e_speed lastSlowFrame = 51.5
   \<and> e_x lastSlowFrame + e_speed lastSlowFrame * 0.5 = 50.75"
  by (simp add: updateEnemy_def lastSlowFrame_def PATH_WAYPOINTS_def GRID_SIZE_def Let_def sqrt_28900)

text \<open>
  C3. The claim is that a destroyed enemy pays its bounty exactly once. In the state
  \<open>doubleHit\<close> two shots reach the same grunt (6 hit points, bounty 10) in one step:
  the first kills it, the enemy stays in the list until the next step's filter, the
  second shot finds it again, and money rises by 20.
\<close>

theorem one_kill_two_bounties:
  "money (gameState doubleHit) = 20
   \<and> bounty (ENEMY_STATS (e_type weakGrunt)) = 10
   \<and> money (gameState (update demoHost doubleHit)) = 40
   \<and> map hp (enemies (update demoHost doubleHit)) = [- 24]"
  by (simp add: step_defs doubleHit_def weakGrunt_def pulseTurret_def pulseShot_def example_defs
      PATH_WAYPOINTS_def GRID_SIZE_def Let_def sqrt_28900 sqrt_25 demoHost_def)

section \<open>What the phases of a step leave alone\<close>

lemma onWaveComplete_fields [simp]:
  "waveCompleteCalls (onWaveComplete g) = Suc (waveCompleteCalls g)"
  "waveComposition (onWaveComplete g) = None"
  "isPlaying (gameState (onWaveComplete g)) = False"
  "isGameOver (gameState (onWaveComplete g)) = isGameOver (gameState g)"
  "money (gameState (onWaveComplete g)) = money (gameState g)"
  "lives (gameState (onWaveComplete g)) = lives (gameState g)"
  "enemies (onWaveComplete g) = enemies g"
  "enemiesToSpawn (onWaveComplete g) = enemiesToSpawn g"
  by (simp_all add: onWaveComplete_def handleWaveComplete_def)

lemma spawning_calls:
  "waveCompleteCalls (spawning h g) =
     waveCompleteCalls g
     + (if enemiesToSpawn g = [] \<and> enemies g = [] \<and> waveComposition g \<noteq> None then 1 else 0)"
  by (simp add: spawning_def Let_def split: list.splits)

lemma spawning_signal_stops:
  "waveCompleteCalls (spawning h g) \<noteq> waveCompleteCalls g
   \<Longrightarrow> \<not> isPlaying (gameState (spawning h g))"
  by (simp add: spawning_def Let_def split: list.splits if_splits)

lemma spawning_gameState:
  "isGameOver (gameState (spawning h g)) = isGameOver (gameState g)"
  "money (gameState (spawning h g)) = money (gameState g)"
  "lives (gameState (spawning h g)) = lives (gameState g)"
  "isPlaying (gameState (spawning h g)) \<Longrightarrow> isPlaying (gameState g)"
  by (simp_all add: spawning_def Let_def split: list.splits if_splits)

lemma spawning_composition:
  "isPlaying (gameState (spawning h g)) \<Longrightarrow> waveComposition (spawning h g) = waveComposition g"
  by (simp add: spawning_def Let_def split: list.splits if_splits)

lemma loseLife_fields [simp]:
  "waveCompleteCalls (loseLife g) = waveCompleteCalls g"
  "waveComposition (loseLife g) = waveComposition g"
  "enemiesToSpawn (loseLife g) = enemiesToSpawn g"
  "spawnTimer (loseLife g) = spawnTimer g"
  "towers (loseLife g) = towers g"
  "projectiles (loseLife g) = projectiles g"
  "money (gameState (loseLife g)) = money (gameState g)"
  "lives (gameState (loseLife g)) = lives (gameState g) - 1"
  by (simp_all add: loseLife_def handleGameOver_def Let_def)

lemma loseLife_playing: "isPlaying (gameState (loseLife g)) \<Longrightarrow> isPlaying (gameState g)"
  by (simp add: loseLife_def handleGameOver_def Let_def split: if_splits)

lemma updateEnemy_fields [simp]:
  "waveCompleteCalls (snd (updateEnemy e g)) = waveCompleteCalls g"
  "waveComposition (snd (updateEnemy e g)) = waveComposition g"
  "enemiesToSpawn (snd (updateEnemy e g)) = enemiesToSpawn g"
  "spawnTimer (snd (updateEnemy e g)) = spawnTimer g"
  "towers (snd (updateEnemy e g)) = towers g"
  "projectiles (snd (updateEnemy e g)) = projectiles g"
  "money (gameState (snd (updateEnemy e g))) = money (gameState g)"
  by (simp_all add: updateEnemy_def Let_def)

lemma updateEnemy_playing:
  "isPlaying (gameState (snd (updateEnemy e g))) \<Longrightarrow> isPlaying (gameState g)"
  by (simp add: updateEnemy_def Let_def loseLife_playing split: if_splits)

lemma updateEnemies_Cons_snd:
  "snd (updateEnemies (e # es) g) = snd (updateEnemies es (snd (updateEnemy e g)))"
  by (simp add: case_prod_beta Let_def)

lemma updateEnemies_Cons_fst:
  "fst (updateEnemies (e # es) g)
     = fst (updateEnemy e g) # fst (updateEnemies es (snd (updateEnemy e g)))"
  by (simp add: case_prod_beta Let_def)

lemma updateEnemies_fields [simp]:
  "waveCompleteCalls (snd (updateEnemies es g)) = waveCompleteCalls g"
  "waveComposition (snd (updateEnemies es g)) = waveComposition g"
  "enemiesToSpawn (snd (updateEnemies es g)) = enemiesToSpawn g"
  "spawnTimer (snd (updateEnemies es g)) = spawnTimer g"
  "towers (snd (updateEnemies es g)) = towers g"
  "projectiles (snd (updateEnemies es g)) = projectiles g"
  "money (gameState (snd (updateEnemies es g))) = money (gameState g)"
  by (induction es arbitrary: g) (simp_all add: updateEnemies_Cons_snd del: updateEnemies.simps(2))

lemma updateEnemies_playing:
  "isPlaying (gameState (snd (updateEnemies es g))) \<Longrightarrow> isPlaying (gameState g)"
  by (induction es arbitrary: g)
     (auto simp add: updateEnemies_Cons_snd simp del: updateEnemies.simps(2) dest: updateEnemy_playing)

lemma moveEnemies_fields [simp]:
  "waveCompleteCalls (moveEnemies g) = waveCompleteCalls g"
  "waveComposition (moveEnemies g) = waveComposition g"
  "enemiesToSpawn (moveEnemies g) = enemiesToSpawn g"
  "spawnTimer (moveEnemies g) = spawnTimer g"
  "towers (moveEnemies g) = towers g"
  "projectiles (moveEnemies g) = projectiles g"
  "money (gameState (moveEnemies g)) = money (gameState g)"
  "enemies (moveEnemies g) = fst (updateEnemies (enemies g) g)"
  by (simp_all add: moveEnemies_def case_prod_beta)

lemma moveEnemies_playing: "isPlaying (gameState (moveEnemies g)) \<Longrightarrow> isPlaying (gameState g)"
  by (simp add: moveEnemies_def case_prod_beta updateEnemies_playing)


lemma removeDead_fields [simp]:
  "gameState (removeDead g) = gameState g"
  "waveCompleteCalls (removeDead g) = waveCompleteCalls g"
  "waveComposition (removeDead g) = waveComposition g"
  "enemiesToSpawn (removeDead g) = enemiesToSpawn g"
  "spawnTimer (removeDead g) = spawnTimer g"
  "towers (removeDead g) = towers g"
  "projectiles (removeDead g) = projectiles g"
  "enemies (removeDead g) = filter (\<lambda>e. hp e > 0) (enemies g)"
  by (simp_all add: removeDead_def)

lemma towerFire_fields [simp]:
  "gameState (snd (towerFire h t g)) = gameState g"
  "waveCompleteCalls (snd (towerFire h t g)) = waveCompleteCalls g"
  "waveComposition (snd (towerFire h t g)) = waveComposition g"
  "enemiesToSpawn (snd (towerFire h t g)) = enemiesToSpawn g"
  "spawnTimer (snd (towerFire h t g)) = spawnTimer g"
  "enemies (snd (towerFire h t g)) = enemies g"
  by (simp_all add: towerFire_def Let_def split: option.splits)

lemma towersLoop_Cons_snd:
  "snd (towersLoop h (t # ts) g) = snd (towersLoop h ts (snd (towerFire h t g)))"
  by (simp add: case_prod_beta Let_def)

lemma towersLoop_fields [simp]:
  "gameState (snd (towersLoop h ts g)) = gameState g"
  "waveCompleteCalls (snd (towersLoop h ts g)) = waveCompleteCalls g"
  "waveComposition (snd (towersLoop h ts g)) = waveComposition g"
  "enemiesToSpawn (snd (towersLoop h ts g)) = enemiesToSpawn g"
  "spawnTimer (snd (towersLoop h ts g)) = spawnTimer g"
  "enemies (snd (towersLoop h ts g)) = enemies g"
  by (induction ts arbitrary: g) (simp_all add: towersLoop_Cons_snd del: towersLoop.simps(2))

lemma towersFire_fields [simp]:
  "gameState (towersFire h g) = gameState g"
  "waveCompleteCalls (towersFire h g) = waveCompleteCalls g"
  "waveComposition (towersFire h g) = waveComposition g"
  "enemiesToSpawn (towersFire h g) = enemiesToSpawn g"
  "spawnTimer (towersFire h g) = spawnTimer g"
  "enemies (towersFire h g) = enemies g"
  by (simp_all add: towersFire_def case_prod_beta)

text \<open>Damage only ever adds to money; it decides nothing else about the game state.\<close>

lemma damageEnemy_state [simp]:
  "lives (gameState (snd (damageEnemy h e d g))) = lives (gameState g)"
  "isPlaying (gameState (snd (damageEnemy h e d g))) = isPlaying (gameState g)"
  "isGameOver (gameState (snd (damageEnemy h e d g))) = isGameOver (gameState g)"
  by (simp_all add: damageEnemy_gameState)

lemma damageEnemy_money: "money (gameState g) \<le> money (gameState (snd (damageEnemy h e d g)))"
  by (simp add: damageEnemy_gameState bounty_nonneg)

lemma splash_Cons_snd:
  "snd (splash h tx ty d (e # es) g) =
     snd (splash h tx ty d es
            (if dist tx ty (e_x e) (e_y e) < 60 then snd (damageEnemy h e d g) else g))"
  by (simp add: case_prod_beta Let_def)

lemma splash_Cons_fst:
  "fst (splash h tx ty d (e # es) g) =
     (if dist tx ty (e_x e) (e_y e) < 60 then e\<lparr>hp := hp e - d\<rparr> else e)
     # fst (splash h tx ty d es
              (if dist tx ty (e_x e) (e_y e) < 60 then snd (damageEnemy h e d g) else g))"
  by (simp add: case_prod_beta Let_def)

lemma splash_fields [simp]:
  "waveCompleteCalls (snd (splash h tx ty d es g)) = waveCompleteCalls g"
  "waveComposition (snd (splash h tx ty d es g)) = waveComposition g"
  "enemiesToSpawn (snd (splash h tx ty d es g)) = enemiesToSpawn g"
  "spawnTimer (snd (splash h tx ty d es g)) = spawnTimer g"
  "towers (snd (splash h tx ty d es g)) = towers g"
  "enemies (snd (splash h tx ty d es g)) = enemies g"
  "lives (gameState (snd (splash h tx ty d es g))) = lives (gameState g)"
  "isPlaying (gameState (snd (splash h tx ty d es g))) = isPlaying (gameState g)"
  "isGameOver (gameState (snd (splash h tx ty d es g))) = isGameOver (gameState g)"
  by (induction es arbitrary: g) (simp_all add: splash_Cons_snd del: splash.simps(2))

lemma splash_money: "money (gameState g) \<le> money (gameState (snd (splash h tx ty d es g)))"
proof (induction es arbitrary: g)
  case Nil
  show ?case by simp
next
  case (Cons e es)
  show ?case
    using Cons [of "snd (damageEnemy h e d g)"] Cons [of g] damageEnemy_money [of g h e d]
    by (simp add: splash_Cons_snd del: splash.simps(2))
qed

lemma splash_ids: "map e_id (fst (splash h tx ty d es g)) = map e_id es"
  by (induction es arbitrary: g) (simp_all add: splash_Cons_fst del: splash.simps(2))

lemma replace_first_ids:
  "find P es = Some t \<Longrightarrow> e_id y = e_id t \<Longrightarrow> map e_id (replace_first P y es) = map e_id es"
  by (induction es) (auto split: if_splits)

lemma updateProjectile_fields [simp]:
  "waveCompleteCalls (snd (updateProjectile h p g)) = waveCompleteCalls g"
  "waveComposition (snd (updateProjectile h p g)) = waveComposition g"
  "enemiesToSpawn (snd (updateProjectile h p g)) = enemiesToSpawn g"
  "spawnTimer (snd (updateProjectile h p g)) = spawnTimer g"
  "towers (snd (updateProjectile h p g)) = towers g"
  "lives (gameState (snd (updateProjectile h p g))) = lives (gameState g)"
  "isPlaying (gameState (snd (updateProjectile h p g))) = isPlaying (gameState g)"
  "isGameOver (gameState (snd (updateProjectile h p g))) = isGameOver (gameState g)"
  by (simp_all add: updateProjectile_def Let_def case_prod_beta split: option.splits)

lemma updateProjectile_money:
  "money (gameState g) \<le> money (gameState (snd (updateProjectile h p g)))"
  by (simp add: updateProjectile_def Let_def case_prod_beta splash_money damageEnemy_money
      split: option.splits)

lemma updateProjectile_ids:
  "map e_id (enemies (snd (updateProjectile h p g))) = map e_id (enemies g)"
  by (simp add: updateProjectile_def Let_def case_prod_beta splash_ids replace_first_ids
      split: option.splits)

lemma projectilesLoop_Cons_snd:
  "snd (projectilesLoop h (p # ps) g) =
     snd (updateProjectile h p (snd (projectilesLoop h ps g)))"
  by (simp add: case_prod_beta Let_def split: option.splits)

lemma projectilesLoop_fields [simp]:
  "waveCompleteCalls (snd (projectilesLoop h ps g)) = waveCompleteCalls g"
  "waveComposition (snd (projectilesLoop h ps g)) = waveComposition g"
  "enemiesToSpawn (snd (projectilesLoop h ps g)) = enemiesToSpawn g"
  "spawnTimer (snd (projectilesLoop h ps g)) = spawnTimer g"
  "towers (snd (projectilesLoop h ps g)) = towers g"
  "lives (gameState (snd (projectilesLoop h ps g))) = lives (gameState g)"
  "isPlaying (gameState (snd (projectilesLoop h ps g))) = isPlaying (gameState g)"
  "isGameOver (gameState (snd (projectilesLoop h ps g))) = isGameOver (gameState g)"
  "map e_id (enemies (snd (projectilesLoop h ps g))) = map e_id (enemies g)"
  by (induction ps arbitrary: g)
     (simp_all add: projectilesLoop_Cons_snd updateProjectile_ids del: projectilesLoop.simps(2))

lemma projectilesLoop_money:
  "money (gameState g) \<le> money (gameState (snd (projectilesLoop h ps g)))"
proof (induction ps arbitrary: g)
  case Nil
  show ?case by simp
next
  case (Cons p ps)
  have "money (gameState g) \<le> money (gameState (snd (projectilesLoop h ps g)))"
    by (rule Cons)
  also have "\<dots> \<le> money (gameState (snd (updateProjectile h p (snd (projectilesLoop h ps g)))))"
    by (rule updateProjectile_money)
  finally show ?case
    by (simp add: projectilesLoop_Cons_snd del: projectilesLoop.simps(2))
qed

lemma updateProjectiles_fields [simp]:
  "waveCompleteCalls (updateProjectiles h g) = waveCompleteCalls g"
  "waveComposition (updateProjectiles h g) = waveComposition g"
  "enemiesToSpawn (updateProjectiles h g) = enemiesToSpawn g"
  "spawnTimer (updateProjectiles h g) = spawnTimer g"
  "towers (updateProjectiles h g) = towers g"
  "lives (gameState (updateProjectiles h g)) = lives (gameState g)"
  "isPlaying (gameState (updateProjectiles h g)) = isPlaying (gameState g)"
  "isGameOver (gameState (updateProjectiles h g)) = isGameOver (gameState g)"
  "map e_id (enemies (updateProjectiles h g)) = map e_id (enemies g)"
  by (simp_all add: updateProjectiles_def case_prod_beta)

lemma updateProjectiles_money:
  "money (gameState g) \<le> money (gameState (updateProjectiles h g))"
  by (simp add: updateProjectiles_def case_prod_beta projectilesLoop_money)

lemma updateParticles_fields [simp]:
  "gameState (updateParticles g) = gameState g"
  "waveCompleteCalls (updateParticles g) = waveCompleteCalls g"
  "waveComposition (updateParticles g) = waveComposition g"
  "enemiesToSpawn (updateParticles g) = enemiesToSpawn g"
  "spawnTimer (updateParticles g) = spawnTimer g"
  "towers (updateParticles g) = towers g"
  "enemies (updateParticles g) = enemies g"
  "projectiles (updateParticles g) = projectiles g"
  by (simp_all add: updateParticles_def)

section \<open>The wave-complete signal\<close>

lemma update_calls:
  "waveCompleteCalls (update h g) =
     waveCompleteCalls g
     + (if isPlaying (gameState g) \<and> \<not> isGameOver (gameState g)
           \<and> enemiesToSpawn g = [] \<and> enemies g = [] \<and> waveComposition g \<noteq> None
        then 1 else 0)"
  by (simp add: update_def Let_def spawning_calls)

lemma update_playing: "isPlaying (gameState (update h g)) \<Longrightarrow> isPlaying (gameState g)"
  by (auto simp add: update_def Let_def split: if_splits)

lemma update_still_playing:
  assumes "isPlaying (gameState (update h g))"
  shows "isPlaying (gameState (spawning h g)) \<or> update h g = g"
proof (cases "isGameOver (gameState g) \<or> \<not> isPlaying (gameState g)")
  case True
  then show ?thesis by (simp add: update_def)
next
  case False
  with assms have "isPlaying (gameState (moveEnemies (spawning h g)))"
    by (simp add: update_def Let_def)
  then show ?thesis by (simp add: moveEnemies_playing)
qed

lemma update_composition:
  assumes "isPlaying (gameState (update h g))"
  shows "waveComposition (update h g) = waveComposition g"
proof -
  from update_still_playing [OF assms] show ?thesis
  proof
    assume "isPlaying (gameState (spawning h g))"
    then have "waveComposition (spawning h g) = waveComposition g"
      by (rule spawning_composition)
    then show ?thesis by (simp add: update_def Let_def)
  next
    assume "update h g = g"
    then show ?thesis by simp
  qed
qed

lemma update_signal_stops:
  assumes "waveCompleteCalls (update h g) \<noteq> waveCompleteCalls g"
  shows "\<not> isPlaying (gameState (update h g))"
proof
  assume playing: "isPlaying (gameState (update h g))"
  from assms have changed: "update h g \<noteq> g" by auto
  with update_still_playing [OF playing] have "isPlaying (gameState (spawning h g))" by simp
  moreover from assms changed have "waveCompleteCalls (spawning h g) \<noteq> waveCompleteCalls g"
    by (simp add: update_def Let_def split: if_splits)
  ultimately show False using spawning_signal_stops by blast
qed

lemma click_fields [simp]:
  "waveCompleteCalls (click h rect ev g) = waveCompleteCalls g"
  "waveComposition (click h rect ev g) = waveComposition g"
  "isPlaying (gameState (click h rect ev g)) = isPlaying (gameState g)"
  "isGameOver (gameState (click h rect ev g)) = isGameOver (gameState g)"
  "lives (gameState (click h rect ev g)) = lives (gameState g)"
  "enemies (click h rect ev g) = enemies g"
  "enemiesToSpawn (click h rect ev g) = enemiesToSpawn g"
  by (simp_all add: click_def handleCanvasClick_def Let_def split: option.splits prod.splits)

lemma perform_staffed: "staffed g \<Longrightarrow> staffed (perform h ev g)"
proof (cases ev)
  case Frame
  assume "staffed g"
  then show ?thesis
    using update_composition [of h g] update_playing [of h g]
    by (auto simp add: Frame staffed_def)
next
  case (StartWave env ai)
  assume "staffed g"
  then show ?thesis
    by (simp add: StartWave staffed_def startNextWave_def Let_def)
qed (simp_all add: staffed_def)

lemma performAll_staffed: "staffed g \<Longrightarrow> staffed (performAll h evs g)"
  by (induction evs arbitrary: g) (simp_all add: perform_staffed)

lemma reachable_staffed: "reachable h g \<Longrightarrow> staffed g"
  unfolding reachable_def
  using performAll_staffed [of initialGame]
  by (auto simp add: staffed_def initialGame_def)

lemma perform_idle:
  assumes "\<not> isPlaying (gameState g)" and "\<not> startsWave ev"
  shows "\<not> isPlaying (gameState (perform h ev g)) \<and>
         waveCompleteCalls (perform h ev g) = waveCompleteCalls g"
  using assms by (cases ev) (simp_all add: update_idle)

lemma performAll_idle:
  assumes "\<not> isPlaying (gameState g)" and "list_all (\<lambda>ev. \<not> startsWave ev) evs"
  shows "waveCompleteCalls (performAll h evs g) = waveCompleteCalls g"
  using assms
proof (induction evs arbitrary: g)
  case Nil
  show ?case by simp
next
  case (Cons ev evs)
  from Cons.prems have idle: "\<not> isPlaying (gameState (perform h ev g))"
    and same: "waveCompleteCalls (perform h ev g) = waveCompleteCalls g"
    using perform_idle [of g ev h] by simp_all
  from Cons.prems have "list_all (\<lambda>ev. \<not> startsWave ev) evs" by simp
  from Cons.IH [OF idle this] same show ?case by simp
qed

lemma perform_calls:
  assumes "\<not> startsWave ev"
  shows "waveCompleteCalls (perform h ev g) = waveCompleteCalls g
       \<or> (waveCompleteCalls (perform h ev g) = waveCompleteCalls g + 1
          \<and> \<not> isPlaying (gameState (perform h ev g)))"
proof (cases ev)
  case Frame
  show ?thesis
    using update_calls [of h g] update_signal_stops [of h g]
    by (auto simp add: Frame split: if_splits)
qed (use assms in simp_all)

lemma performAll_calls:
  assumes "list_all (\<lambda>ev. \<not> startsWave ev) evs"
  shows "waveCompleteCalls (performAll h evs g) \<le> waveCompleteCalls g + 1"
  using assms
proof (induction evs arbitrary: g)
  case Nil
  show ?case by simp
next
  case (Cons ev evs)
  from Cons.prems have ev: "\<not> startsWave ev" and evs: "list_all (\<lambda>ev. \<not> startsWave ev) evs"
    by simp_all
  from perform_calls [OF ev, of h g] show ?case
  proof
    assume "waveCompleteCalls (perform h ev g) = waveCompleteCalls g"
    with Cons.IH [OF evs, of "perform h ev g"] show ?thesis by simp
  next
    assume "waveCompleteCalls (perform h ev g) = waveCompleteCalls g + 1
          \<and> \<not> isPlaying (gameState (perform h ev g))"
    with performAll_idle [OF _ evs, of "perform h ev g" h] show ?thesis by simp
  qed
qed

text \<open>
  C6. In every reachable game, a step calls \<open>onWaveComplete\<close> exactly when the game
  is playing (and not over) and the spawn queue and the enemy list are both empty as
  the step begins; so it never signals while either is non-empty. A step that signals
  stops play, and between two wave starts the signal is given at most once, whatever
  frames, clicks and menu choices occur.
\<close>

theorem wave_complete_signalled_once:
  assumes "reachable h g"
  shows "waveCompleteCalls (update h g) =
           waveCompleteCalls g
           + (if isPlaying (gameState g) \<and> \<not> isGameOver (gameState g)
                 \<and> enemiesToSpawn g = [] \<and> enemies g = []
              then 1 else 0)
       \<and> (waveCompleteCalls (update h g) \<noteq> waveCompleteCalls g
            \<longrightarrow> \<not> isPlaying (gameState (update h g)))
       \<and> (\<forall>evs. list_all (\<lambda>ev. \<not> startsWave ev) evs
            \<longrightarrow> waveCompleteCalls (performAll h evs g) \<le> waveCompleteCalls g + 1)"
proof -
  from reachable_staffed [OF assms]
  have "isPlaying (gameState g) \<longrightarrow> waveComposition g \<noteq> None"
    by (simp add: staffed_def)
  then have "waveCompleteCalls (update h g) =
           waveCompleteCalls g
           + (if isPlaying (gameState g) \<and> \<not> isGameOver (gameState g)
                 \<and> enemiesToSpawn g = [] \<and> enemies g = []
              then 1 else 0)"
    by (simp add: update_calls)
  moreover have "waveCompleteCalls (update h g) \<noteq> waveCompleteCalls g
            \<longrightarrow> \<not> isPlaying (gameState (update h g))"
    using update_signal_stops by blast
  moreover have "\<forall>evs. list_all (\<lambda>ev. \<not> startsWave ev) evs
            \<longrightarrow> waveCompleteCalls (performAll h evs g) \<le> waveCompleteCalls g + 1"
    using performAll_calls by blast
  ultimately show ?thesis by blast
qed


theorem wave_complete_witness:
  "reachable demoHost emptyWaveGame
   \<and> isPlaying (gameState emptyWaveGame)
   \<and> waveCompleteCalls emptyWaveGame = 0
   \<and> waveCompleteCalls (update demoHost emptyWaveGame) = 1
   \<and> \<not> isPlaying (gameState (update demoHost emptyWaveGame))
   \<and> waveCompleteCalls
        (performAll demoHost [Frame, Click None buildClick, Frame, Select (Some SLOW), Frame]
           emptyWaveGame) \<le> 1"
proof -
  have r: "reachable demoHost emptyWaveGame"
    unfolding reachable_def emptyWaveGame_def by blast
  have key: "getClient (Some (Some ''key'')) = Some ''key''"
    by (simp add: getClient_def getApiKey_def trim_def is_space_def)
  have fields: "isPlaying (gameState emptyWaveGame)" "\<not> isGameOver (gameState emptyWaveGame)"
    "enemiesToSpawn emptyWaveGame = []" "enemies emptyWaveGame = []"
    "waveCompleteCalls emptyWaveGame = 0"
    by (simp_all add: emptyWaveGame_def initialGame_def startNextWave_def generateWave_def key
        emptyWaveService_def Let_def)
  have evs: "list_all (\<lambda>ev. \<not> startsWave ev)
      [Frame, Click None buildClick, Frame, Select (Some SLOW), Frame]"
    by simp
  from wave_complete_signalled_once [OF r] fields evs r show ?thesis
    by (simp del: performAll.simps)
qed

section \<open>Which enemies the towers see\<close>

lemma updateEnemy_enemy:
  "e_id (fst (updateEnemy e g)) = e_id e"
  "hp (fst (updateEnemy e g)) = (if Suc (pathIndex e) < length PATH_WAYPOINTS then hp e else 0)"
  by (simp_all add: updateEnemy_def Let_def)

lemma moved_live_ids:
  "map e_id (filter (\<lambda>e. hp e > 0) (fst (updateEnemies es g)))
     = map e_id (filter (\<lambda>e. hp e > 0 \<and> Suc (pathIndex e) < length PATH_WAYPOINTS) es)"
  by (induction es arbitrary: g)
     (simp_all add: updateEnemies_Cons_fst updateEnemy_enemy del: updateEnemies.simps(2))

lemma spawning_enemies:
  "\<exists>spawned. enemies (spawning h g) = enemies g @ spawned \<and> length spawned \<le> 1"
  by (simp add: spawning_def Let_def split: list.splits)

lemma findTarget_fold_mem:
  "fst (foldl (\<lambda>(target, maxDist) enemy.
                 if dist tx ty (e_x enemy) (e_y enemy) \<le> r \<and> distanceTraveled enemy > maxDist
                 then (Some enemy, distanceTraveled enemy)
                 else (target, maxDist)) (a, m) es) = Some e
   \<Longrightarrow> a = Some e \<or> e \<in> set es"
  by (induction es arbitrary: a m) (auto split: if_splits)

lemma findTarget_mem: "findTarget t es = Some e \<Longrightarrow> e \<in> set es"
  unfolding findTarget_def using findTarget_fold_mem [of _ _ _ None "- 1" es e] by auto

lemma towerFire_projectiles:
  "\<exists>fired. projectiles (snd (towerFire h t g)) = projectiles g @ fired
           \<and> (\<forall>p \<in> set fired. \<exists>e \<in> set (enemies g). targetId p = e_id e)"
  by (auto simp add: towerFire_def Let_def split: option.splits dest: findTarget_mem)

lemma towersLoop_projectiles:
  "\<exists>fired. projectiles (snd (towersLoop h ts g)) = projectiles g @ fired
           \<and> (\<forall>p \<in> set fired. \<exists>e \<in> set (enemies g). targetId p = e_id e)"
proof (induction ts arbitrary: g)
  case Nil
  show ?case by simp
next
  case (Cons t ts)
  obtain f1 where f1: "projectiles (snd (towerFire h t g)) = projectiles g @ f1"
    "\<forall>p \<in> set f1. \<exists>e \<in> set (enemies g). targetId p = e_id e"
    using towerFire_projectiles by blast
  obtain f2 where f2:
    "projectiles (snd (towersLoop h ts (snd (towerFire h t g))))
       = projectiles (snd (towerFire h t g)) @ f2"
    "\<forall>p \<in> set f2. \<exists>e \<in> set (enemies (snd (towerFire h t g))). targetId p = e_id e"
    using Cons [of "snd (towerFire h t g)"] by blast
  have "projectiles (snd (towersLoop h (t # ts) g)) = projectiles g @ (f1 @ f2)"
    using f1(1) f2(1) by (simp add: towersLoop_Cons_snd del: towersLoop.simps(2))
  moreover have "\<forall>p \<in> set (f1 @ f2). \<exists>e \<in> set (enemies g). targetId p = e_id e"
    using f1(2) f2(2) by auto
  ultimately show ?case by blast
qed

lemma towersFire_projectiles:
  "\<exists>fired. projectiles (towersFire h g) = projectiles g @ fired
           \<and> (\<forall>p \<in> set fired. \<exists>e \<in> set (enemies g). targetId p = e_id e)"
  using towersLoop_projectiles [of h "towers g" g]
  by (simp add: towersFire_def case_prod_beta)

lemma spawning_projectiles [simp]: "projectiles (spawning h g) = projectiles g"
  by (simp add: spawning_def Let_def onWaveComplete_def handleWaveComplete_def split: list.splits)





section \<open>Three grunts, ten frames apart\<close>

lemma waypoints_0_1:
  "PATH_WAYPOINTS ! 0 = \<lparr>vec_x = 20, vec_y = 100\<rparr>"
  "PATH_WAYPOINTS ! Suc 0 = \<lparr>vec_x = 220, vec_y = 100\<rparr>"
  "length PATH_WAYPOINTS = 10"
  by (simp_all add: PATH_WAYPOINTS_def GRID_SIZE_def)

lemma early_enemy_moves:
  assumes "pathIndex e = 0" and "frozen e = 0" and "e_speed e = 1.5" and "e_y e = 100"
    and "e_x e \<le> 200"
  shows "updateEnemy e g
           = (e\<lparr>e_x := e_x e + 1.5, distanceTraveled := distanceTraveled e + 1.5\<rparr>, g)"
proof -
  define dx where "dx = 220 - e_x e"
  have pos: "20 \<le> dx" using assms(5) by (simp add: dx_def)
  have root: "sqrt (dx * dx) = dx"
    using pos real_sqrt_abs2 [of dx] by simp
  have far: "\<not> dx < 1.5" using pos by simp
  have unit: "dx / dx = 1" using pos by simp
  show ?thesis
    using assms(1-4) root far unit
    by (simp add: updateEnemy_def Let_def waypoints_0_1 dx_def)
qed


lemma early_enemies_move:
  assumes "list_all (\<lambda>e. pathIndex e = 0 \<and> frozen e = 0 \<and> e_speed e = 1.5 \<and> e_y e = 100
                          \<and> e_x e \<le> 200) es"
  shows "updateEnemies es g
           = (map (\<lambda>e. e\<lparr>e_x := e_x e + 1.5, distanceTraveled := distanceTraveled e + 1.5\<rparr>) es, g)"
  using assms by (induction es) (simp_all add: early_enemy_moves)

lemma spawning_towers [simp]: "towers (spawning h g) = towers g"
  by (simp add: spawning_def Let_def onWaveComplete_def handleWaveComplete_def split: list.splits)

lemma spawning_busy:
  "enemiesToSpawn g \<noteq> [] \<or> enemies g \<noteq> [] \<Longrightarrow> gameState (spawning h g) = gameState g"
  by (auto simp add: spawning_def Let_def split: list.splits)

lemma update_empty_board:
  assumes "isPlaying (gameState g)" and "\<not> isGameOver (gameState g)"
    and "towers g = []" and "projectiles g = []"
    and "enemiesToSpawn g \<noteq> [] \<or> enemies g \<noteq> []"
    and "list_all (\<lambda>e. pathIndex e = 0 \<and> frozen e = 0 \<and> e_speed e = 1.5 \<and> e_y e = 100
                          \<and> e_x e \<le> 200) (enemies (spawning h g))"
    and "list_all (\<lambda>e. hp e > 0) (enemies (spawning h g))"
  shows "enemies (update h g)
           = map (\<lambda>e. e\<lparr>e_x := e_x e + 1.5, distanceTraveled := distanceTraveled e + 1.5\<rparr>)
               (enemies (spawning h g))"
    and "gameState (update h g) = gameState g"
    and "towers (update h g) = []"
    and "projectiles (update h g) = []"
    and "enemiesToSpawn (update h g) = enemiesToSpawn (spawning h g)"
    and "spawnTimer (update h g) = spawnTimer (spawning h g)"
proof -
  define g1 where "g1 = spawning h g"
  define moved where
    "moved = map (\<lambda>e. e\<lparr>e_x := e_x e + 1.5, distanceTraveled := distanceTraveled e + 1.5\<rparr>)
               (enemies g1)"
  have move: "moveEnemies g1 = g1\<lparr>enemies := moved\<rparr>"
    using early_enemies_move [OF assms(6), of g1]
    by (simp add: moveEnemies_def g1_def moved_def)
  have alive: "filter (\<lambda>e. hp e > 0) moved = moved"
    using assms(7) by (simp add: moved_def g1_def list_all_iff)
  have g2: "removeDead (moveEnemies g1) = g1\<lparr>enemies := moved\<rparr>"
    by (simp add: move removeDead_def alive)
  have g3: "towersFire h (g1\<lparr>enemies := moved\<rparr>) = g1\<lparr>enemies := moved\<rparr>"
    using assms(3) by (simp add: towersFire_def g1_def)
  have g4: "updateProjectiles h (g1\<lparr>enemies := moved\<rparr>) = g1\<lparr>enemies := moved\<rparr>"
    using assms(4) by (simp add: updateProjectiles_def g1_def)
  have state: "gameState g1 = gameState g"
    using assms(5) by (simp add: g1_def spawning_busy)
  have upd: "update h g =
      (updateParticles (g1\<lparr>enemies := moved\<rparr>))
        \<lparr>frameCount := Suc (frameCount (updateParticles (g1\<lparr>enemies := moved\<rparr>)))\<rparr>"
    using assms(1,2) by (simp add: update_def Let_def g1_def [symmetric] g2 g3 g4)
  show "enemies (update h g)
           = map (\<lambda>e. e\<lparr>e_x := e_x e + 1.5, distanceTraveled := distanceTraveled e + 1.5\<rparr>)
               (enemies (spawning h g))"
    by (simp add: upd moved_def g1_def)
  show "gameState (update h g) = gameState g"
    by (simp add: upd state)
  show "towers (update h g) = []"
    using assms(3) by (simp add: upd g1_def)
  show "projectiles (update h g) = []"
    using assms(4) by (simp add: upd g1_def)
  show "enemiesToSpawn (update h g) = enemiesToSpawn (spawning h g)"
    by (simp add: upd g1_def)
  show "spawnTimer (update h g) = spawnTimer (spawning h g)"
    by (simp add: upd g1_def)
qed


lemma split10: "k = 10 * (k div 10) + k mod 10" for k :: nat
  by simp

lemma tenth_frame:
  "k mod 10 = 9 \<Longrightarrow> Suc k mod 10 = 0 \<and> Suc k div 10 = Suc (k div 10)" for k :: nat
  by (simp add: mod_Suc div_Suc)

lemma tenth_frame_last:
  "k < 30 \<Longrightarrow> k mod 10 = 9 \<Longrightarrow> (Suc k < 30 \<longleftrightarrow> k div 10 < 2) \<and> k div 10 \<le> 2" for k :: nat
  using split10 [of k] by linarith

lemma other_frame:
  fixes k :: nat
  assumes "k < 30" and "k mod 10 \<noteq> 9"
  shows "Suc k mod 10 = Suc (k mod 10) \<and> Suc k div 10 = k div 10 \<and> Suc k < 30 \<and> k mod 10 < 9"
proof -
  have "k mod 10 < 10" by simp
  with assms(2) have c: "k mod 10 < 9" by linarith
  from assms(1) have q: "k div 10 < 3" by (simp add: less_mult_imp_div_less)
  have d: "Suc k < 30" using q c split10 [of k] by linarith
  from assms c d show ?thesis by (simp add: mod_Suc div_Suc)
qed

lemma spawnRun_spawning:
  assumes "spawnRun k g" and "k \<le> 30"
  shows "spawnTimer (spawning h g) = (if Suc k < 30 then int (Suc k mod 10) else 0)"
    and "length (enemies (spawning h g)) = (if Suc k < 30 then Suc k div 10 else 3)"
    and "enemiesToSpawn (spawning h g) =
          (if Suc k < 30
           then [\<lparr>g_type = grunt, g_count = 3 - int (Suc k div 10), interval = 10,
                  hpMultiplier = 1\<rparr>]
           else [])"
    and "list_all (\<lambda>e. e_type e = grunt \<and> hp e = 80 \<and> pathIndex e = 0 \<and> frozen e = 0
                      \<and> e_speed e = 1.5 \<and> e_y e = 100
                      \<and> 20 \<le> e_x e \<and> e_x e \<le> 20 + 1.5 * real k)
           (enemies (spawning h g))"
    and "enemiesToSpawn g \<noteq> [] \<or> enemies g \<noteq> []"
proof -
  consider (spent) "k = 30" | (spawn) "k < 30" "k mod 10 = 9" | (wait) "k < 30" "k mod 10 \<noteq> 9"
    using assms(2) by linarith
  then have "spawnTimer (spawning h g) = (if Suc k < 30 then int (Suc k mod 10) else 0)
    \<and> length (enemies (spawning h g)) = (if Suc k < 30 then Suc k div 10 else 3)
    \<and> enemiesToSpawn (spawning h g) =
          (if Suc k < 30
           then [\<lparr>g_type = grunt, g_count = 3 - int (Suc k div 10), interval = 10,
                  hpMultiplier = 1\<rparr>]
           else [])
    \<and> list_all (\<lambda>e. e_type e = grunt \<and> hp e = 80 \<and> pathIndex e = 0 \<and> frozen e = 0
                      \<and> e_speed e = 1.5 \<and> e_y e = 100
                      \<and> 20 \<le> e_x e \<and> e_x e \<le> 20 + 1.5 * real k)
           (enemies (spawning h g))
    \<and> (enemiesToSpawn g \<noteq> [] \<or> enemies g \<noteq> [])"
  proof cases
    case spent
    with assms(1) have "enemiesToSpawn g = []" "length (enemies g) = 3"
      by (simp_all add: spawnRun_def)
    then have "enemies g \<noteq> []" by auto
    with \<open>enemiesToSpawn g = []\<close> have "spawning h g = g"
      by (simp add: spawning_def)
    with assms(1) spent \<open>enemies g \<noteq> []\<close> show ?thesis
      by (simp add: spawnRun_def)
  next
    case spawn
    then have arith: "Suc k mod 10 = 0" "Suc k div 10 = Suc (k div 10)"
      using tenth_frame [of k] by simp_all
    from spawn have last: "Suc k < 30 \<longleftrightarrow> k div 10 < 2" "k div 10 \<le> 2"
      using tenth_frame_last [of k] by simp_all
    from assms(1) spawn arith last show ?thesis
      by (simp add: spawnRun_def spawning_def Let_def waypoints_0_1)
  next
    case wait
    then have arith: "Suc k mod 10 = Suc (k mod 10)" "Suc k div 10 = k div 10" "Suc k < 30"
      "k mod 10 < 9"
      using other_frame [of k] by simp_all
    from assms(1) wait arith show ?thesis
      by (simp add: spawnRun_def spawning_def Let_def)
  qed
  then show "spawnTimer (spawning h g) = (if Suc k < 30 then int (Suc k mod 10) else 0)"
    and "length (enemies (spawning h g)) = (if Suc k < 30 then Suc k div 10 else 3)"
    and "enemiesToSpawn (spawning h g) =
          (if Suc k < 30
           then [\<lparr>g_type = grunt, g_count = 3 - int (Suc k div 10), interval = 10,
                  hpMultiplier = 1\<rparr>]
           else [])"
    and "list_all (\<lambda>e. e_type e = grunt \<and> hp e = 80 \<and> pathIndex e = 0 \<and> frozen e = 0
                      \<and> e_speed e = 1.5 \<and> e_y e = 100
                      \<and> 20 \<le> e_x e \<and> e_x e \<le> 20 + 1.5 * real k)
           (enemies (spawning h g))"
    and "enemiesToSpawn g \<noteq> [] \<or> enemies g \<noteq> []"
    by blast+
qed


lemma spawnRun_step:
  assumes "spawnRun k g" and "k \<le> 30"
  shows "spawnRun (Suc k) (update h g)"
proof -
  note timer = spawnRun_spawning(1) [OF assms, of h]
  note count = spawnRun_spawning(2) [OF assms, of h]
  note queue = spawnRun_spawning(3) [OF assms, of h]
  note place = spawnRun_spawning(4) [OF assms, of h]
  note busy = spawnRun_spawning(5) [OF assms]
  from assms(1) have board: "isPlaying (gameState g)" "\<not> isGameOver (gameState g)"
    "towers g = []" "projectiles g = []"
    by (simp_all add: spawnRun_def)
  have near: "20 + 1.5 * real k \<le> 200"
    using assms(2) by simp
  have early: "list_all (\<lambda>e. pathIndex e = 0 \<and> frozen e = 0 \<and> e_speed e = 1.5 \<and> e_y e = 100
                          \<and> e_x e \<le> 200) (enemies (spawning h g))"
    using place near by (fastforce simp add: list_all_iff)
  have alive: "list_all (\<lambda>e. hp e > 0) (enemies (spawning h g))"
    using place by (auto simp add: list_all_iff)
  note up = update_empty_board [OF board busy early alive]
  have moved: "list_all (\<lambda>e. e_type e = grunt \<and> hp e = 80 \<and> pathIndex e = 0 \<and> frozen e = 0
                      \<and> e_speed e = 1.5 \<and> e_y e = 100
                      \<and> 20 \<le> e_x e \<and> e_x e \<le> 20 + 1.5 * real (Suc k))
           (enemies (update h g))"
    using place by (fastforce simp add: up(1) list_all_iff add_divide_distrib)
  have len: "length (enemies (update h g)) = (if Suc k < 30 then Suc k div 10 else 3)"
    using count by (simp add: up(1))
  show ?thesis
    unfolding spawnRun_def
    using board moved len timer queue
    by (simp only: up simp_thms)
qed

lemma run_Suc: "run h (Suc n) g = update h (run h n g)"
  by (induction n arbitrary: g) simp_all

lemma spawnRun_run:
  assumes "spawnRun 0 g" and "k \<le> 31"
  shows "spawnRun k (run h k g)"
  using assms(2)
proof (induction k)
  case 0
  from assms(1) show ?case by simp
next
  case (Suc k)
  then have "spawnRun k (run h k g)" and "k \<le> 30" by simp_all
  then have "spawnRun (Suc k) (update h (run h k g))" by (rule spawnRun_step)
  then show ?case by (simp only: run_Suc)
qed

text \<open>
  C7. Start from a playing state whose spawn queue is one group of three grunts with
  interval 10 and hit-point multiplier 1, with the timer at zero and an empty board (no
  enemies, and no towers or projectiles, so nothing can be killed). After 31 steps
  exactly three enemies have been created and the queue is empty: the enemy list holds
  three live grunts still on the first path segment, and on the way the list only
  grew, one enemy at each of the steps 10, 20 and 30.
\<close>

theorem three_grunts_after_31_steps:
  assumes "isPlaying (gameState g)" and "\<not> isGameOver (gameState g)"
    and "enemiesToSpawn g = [\<lparr>g_type = grunt, g_count = 3, interval = 10, hpMultiplier = 1\<rparr>]"
    and "spawnTimer g = 0" and "enemies g = []" and "towers g = []" and "projectiles g = []"
  shows "length (enemies (run h 31 g)) = 3
       \<and> enemiesToSpawn (run h 31 g) = []
       \<and> list_all (\<lambda>e. e_type e = grunt \<and> hp e = 80 \<and> 0 < hp e \<and> pathIndex e = 0)
            (enemies (run h 31 g))
       \<and> (\<forall>k \<le> 31. length (enemies (run h k g)) = (if k < 30 then k div 10 else 3))"
proof -
  from assms have start: "spawnRun 0 g"
    by (simp add: spawnRun_def)
  have every: "\<And>k. k \<le> 31 \<Longrightarrow> spawnRun k (run h k g)"
    using spawnRun_run [OF start] by blast
  have final: "spawnRun 31 (run h 31 g)"
    by (rule every) simp
  have counts: "\<forall>k \<le> 31. length (enemies (run h k g)) = (if k < 30 then k div 10 else 3)"
    using every by (simp add: spawnRun_def)
  from final have "length (enemies (run h 31 g)) = 3" "enemiesToSpawn (run h 31 g) = []"
    "list_all (\<lambda>e. e_type e = grunt \<and> hp e = 80 \<and> 0 < hp e \<and> pathIndex e = 0)
            (enemies (run h 31 g))"
    by (auto simp add: spawnRun_def list_all_iff)
  with counts show ?thesis by blast
qed

theorem three_grunts_witness:
  "isPlaying (gameState threeGrunts) \<and> \<not> isGameOver (gameState threeGrunts)
   \<and> enemiesToSpawn threeGrunts
       = [\<lparr>g_type = grunt, g_count = 3, interval = 10, hpMultiplier = 1\<rparr>]
   \<and> spawnTimer threeGrunts = 0 \<and> enemies threeGrunts = []
   \<and> towers threeGrunts = [] \<and> projectiles threeGrunts = []
   \<and> length (enemies (run demoHost 31 threeGrunts)) = 3
   \<and> enemiesToSpawn (run demoHost 31 threeGrunts) = []
   \<and> length (enemies (run demoHost 29 threeGrunts)) = 2"
proof -
  have a: "isPlaying (gameState threeGrunts)" and b: "\<not> isGameOver (gameState threeGrunts)"
    and c: "enemiesToSpawn threeGrunts
       = [\<lparr>g_type = grunt, g_count = 3, interval = 10, hpMultiplier = 1\<rparr>]"
    and d: "spawnTimer threeGrunts = 0" and e: "enemies threeGrunts = []"
    and f: "towers threeGrunts = []" and i: "projectiles threeGrunts = []"
    by (simp_all add: threeGrunts_def playingGame_def initialGame_def)
  from three_grunts_after_31_steps [OF a b c d e f i, of demoHost]
  have "length (enemies (run demoHost 31 threeGrunts)) = 3"
    and "enemiesToSpawn (run demoHost 31 threeGrunts) = []"
    and "\<forall>k \<le> 31. length (enemies (run demoHost k threeGrunts))
           = (if k < 30 then k div 10 else 3)"
    by blast+
  moreover from this(3) have "length (enemies (run demoHost 29 threeGrunts)) = 2"
    by simp
  ultimately show ?thesis using a b c d e f i by blast
qed

section \<open>Money\<close>

text \<open>
  A step only ever adds bounties to money, a click subtracts at most a cost that the
  funds check admitted, and nothing else touches it: money is never negative in a
  reachable game.
\<close>

lemma update_money: "money (gameState g) \<le> money (gameState (update h g))"
proof (cases "isGameOver (gameState g) \<or> \<not> isPlaying (gameState g)")
  case True
  then show ?thesis by (simp add: update_def)
next
  case False
  have "money (gameState g) = money (gameState (towersFire h (removeDead (moveEnemies (spawning h g)))))"
    by (simp add: spawning_gameState)
  also have "\<dots> \<le> money (gameState (updateProjectiles h
      (towersFire h (removeDead (moveEnemies (spawning h g))))))"
    by (rule updateProjectiles_money)
  finally show ?thesis
    using False by (simp add: update_def Let_def)
qed

lemma click_money:
  "money (gameState (click h rect ev g)) = money (gameState g)
   \<or> (\<exists>selected. selectedTower g = Some selected
         \<and> cost (TOWER_STATS selected) \<le> money (gameState g)
         \<and> money (gameState (click h rect ev g))
             = money (gameState g) - cost (TOWER_STATS selected))"
  by (auto simp add: click_def handleCanvasClick_def Let_def split: option.splits prod.splits)

lemma perform_money:
  assumes "0 \<le> money (gameState g)"
  shows "0 \<le> money (gameState (perform h ev g))"
proof (cases ev)
  case Frame
  with assms update_money [of g h] show ?thesis by simp
next
  case (Click rect mouse)
  with assms click_money [of h rect mouse g] show ?thesis by auto
next
  case (StartWave env ai)
  with assms show ?thesis by (simp add: startNextWave_def Let_def)
qed (use assms in simp_all)

lemma performAll_money:
  "0 \<le> money (gameState g) \<Longrightarrow> 0 \<le> money (gameState (performAll h evs g))"
  by (induction evs arbitrary: g) (simp_all add: perform_money)

lemma reachable_money: "reachable h g \<Longrightarrow> 0 \<le> money (gameState g)"
  unfolding reachable_def
  using performAll_money [of initialGame]
  by (auto simp add: initialGame_def INITIAL_MONEY_def)

section \<open>The slow timer\<close>

text \<open>
  An enemy with a next waypoint advances at half speed only while its timer is above
  one at the start of the step: the step that takes the timer from one to zero is at
  full speed.
\<close>

lemma slow_timer_frames:
  assumes "Suc (pathIndex e) < length PATH_WAYPOINTS"
  shows "frozen (fst (updateEnemy e g)) = (if frozen e > 0 then frozen e - 1 else frozen e)"
    and "distanceTraveled (fst (updateEnemy e g))
           = distanceTraveled e + (if frozen e > 1 then e_speed e * 0.5 else e_speed e)"
  using assms by (simp_all add: updateEnemy_def Let_def)


section \<open>Lives\<close>

text \<open>A step that runs takes one life for every enemy that has no next waypoint.\<close>

lemma updateEnemy_lives:
  "lives (gameState (snd (updateEnemy e g)))
     = lives (gameState g) - (if Suc (pathIndex e) < length PATH_WAYPOINTS then 0 else 1)"
  by (simp add: updateEnemy_def Let_def)

lemma updateEnemies_lives:
  "lives (gameState (snd (updateEnemies es g)))
     = lives (gameState g)
       - int (length (filter (\<lambda>e. \<not> Suc (pathIndex e) < length PATH_WAYPOINTS) es))"
  by (induction es arbitrary: g)
     (simp_all add: updateEnemies_Cons_snd updateEnemy_lives del: updateEnemies.simps(2))

lemma update_lives:
  assumes "isPlaying (gameState g)" and "\<not> isGameOver (gameState g)"
  shows "lives (gameState (update h g))
     = lives (gameState g)
       - int (length (filter (\<lambda>e. \<not> Suc (pathIndex e) < length PATH_WAYPOINTS)
                        (enemies (spawning h g))))"
  using assms
  by (simp add: update_def Let_def moveEnemies_def case_prod_beta updateEnemies_lives
      spawning_gameState)

end
